theory Spec2Isabelle
  imports Main "HOL-Library.Word"
begin

section \<open>Machine integers\<close>

type_synonym uint32_t = "32 word"
type_synonym uint64_t = "64 word"

section \<open>MaterialDataBuffer\<close>

text \<open>
  The material buffer is one raw byte buffer that is read as an array of whatever struct
  type the caller names. \<open>get_next_free_material\<close> is a template over the struct type;
  the only thing it uses of the type is \<open>sizeof\<close>, which is the first argument here.
  All of its arithmetic is on \<open>uint32_t\<close> and wraps. The trace message it logs is left
  out.
\<close>

record MaterialHandle =
  index :: uint32_t

record MaterialDataBuffer =
  buffer_size :: uint32_t
  num_allocated_bytes :: uint32_t

definition get_next_free_material ::
  "uint32_t \<Rightarrow> MaterialDataBuffer \<Rightarrow> MaterialHandle \<times> MaterialDataBuffer" where
  "get_next_free_material struct_size b =
     (let new_idx = (num_allocated_bytes b div struct_size) + 1
      in (\<lparr>index = new_idx\<rparr>, b\<lparr>num_allocated_bytes := struct_size * (new_idx + 1)\<rparr>))"

text \<open>
  \<open>at\<close> reads \<open>reinterpret_cast<T*>(buffer)[handle.index]\<close>: pointer arithmetic, so the
  byte offset of a handle is its index times the struct size, without wrap-around.
\<close>

definition material_byte_offset :: "uint32_t \<Rightarrow> MaterialHandle \<Rightarrow> nat" where
  "material_byte_offset struct_size h = unat (index h) * unat struct_size"

definition material_byte_range :: "uint32_t \<Rightarrow> MaterialHandle \<Rightarrow> nat set" where
  "material_byte_range struct_size h =
     {material_byte_offset struct_size h ..< material_byte_offset struct_size h + unat struct_size}"

section \<open>Logging and the GPU API boundary\<close>

text \<open>
  The render device logs through spdlog; a function of the model returns the entries it
  logs, in order. Calls into the graphics API are the boundary of the model: what the API
  answers to a call is an argument of the function that makes the call.
\<close>

datatype log_level = level_trace | level_info | level_warn | level_error

type_synonym log_entry = "log_level \<times> string"

type_synonym HRESULT = "32 word"

text \<open>\<open>FAILED(hr)\<close> is \<open>hr < 0\<close> on the signed reading of the result code.\<close>

definition FAILED :: "HRESULT \<Rightarrow> bool" where
  "FAILED hr \<longleftrightarrow> sint hr < 0"

definition S_OK :: HRESULT where
  "S_OK = 0"

definition E_OUTOFMEMORY :: HRESULT where
  "E_OUTOFMEMORY = 0x8007000E"

text \<open>GPU objects are known by their identity; a \<open>ComPtr\<close> is an optional identity.\<close>

type_synonym ID3D12Resource = nat
type_synonym ID3D12Fence = nat

datatype D3D12_HEAP_TYPE = HEAP_TYPE_UNSET | D3D12_HEAP_TYPE_DEFAULT | D3D12_HEAP_TYPE_UPLOAD

datatype D3D12_RESOURCE_STATES =
  D3D12_RESOURCE_STATE_COMMON
| D3D12_RESOURCE_STATE_GENERIC_READ
| D3D12_RESOURCE_STATE_RENDER_TARGET
| D3D12_RESOURCE_STATE_SHADER_RESOURCE
| D3D12_RESOURCE_STATE_DEPTH_WRITE
| D3D12_RESOURCE_STATE_UNORDERED_ACCESS
| D3D12_RESOURCE_STATE_PRESENT
| D3D12_RESOURCE_STATE_COPY_DEST
| D3D12_RESOURCE_STATE_VERTEX_AND_CONSTANT_BUFFER
| D3D12_RESOURCE_STATE_INDEX_BUFFER

datatype D3D12_RESOURCE_DESC = Desc_Buffer nat | Desc_Tex2D nat

record CreateResource_args =
  HeapType :: D3D12_HEAP_TYPE
  desc :: D3D12_RESOURCE_DESC
  initial_state :: D3D12_RESOURCE_STATES

text \<open>
  The answer of \<open>device_allocator->CreateResource\<close> to a request: the result code and
  the resource it made.
\<close>

type_synonym CreateResource = "CreateResource_args \<Rightarrow> HRESULT \<times> ID3D12Resource"

definition out_of_memory :: CreateResource where
  "out_of_memory args = (E_OUTOFMEMORY, 0)"

section \<open>Buffers and images\<close>

text \<open>
  \<open>OtherBufferUsage\<close> and \<open>OtherImageUsage\<close> stand for an enum value that no case of the
  source's \<open>switch\<close> names.
\<close>

datatype BufferUsage =
  StagingBuffer | ConstantBuffer | IndirectCommands | UnorderedAccess | IndexBuffer | VertexBuffer
| OtherBufferUsage

record BufferCreateInfo =
  buffer_name :: string
  buffer_usage :: BufferUsage
  buffer_create_size :: nat

record D3D12Buffer =
  buffer_resource :: "ID3D12Resource option"
  buffer_mapped :: bool
  buffer_bytes :: nat
  buffer_object_name :: string

fun buffer_usage_switch :: "BufferUsage \<Rightarrow> D3D12_HEAP_TYPE \<times> D3D12_RESOURCE_STATES \<times> bool" where
  "buffer_usage_switch StagingBuffer = (D3D12_HEAP_TYPE_UPLOAD, D3D12_RESOURCE_STATE_GENERIC_READ, True)"
| "buffer_usage_switch ConstantBuffer = (D3D12_HEAP_TYPE_UPLOAD, D3D12_RESOURCE_STATE_GENERIC_READ, True)"
| "buffer_usage_switch IndirectCommands = (D3D12_HEAP_TYPE_DEFAULT, D3D12_RESOURCE_STATE_COMMON, False)"
| "buffer_usage_switch UnorderedAccess = (D3D12_HEAP_TYPE_DEFAULT, D3D12_RESOURCE_STATE_COMMON, False)"
| "buffer_usage_switch IndexBuffer = (D3D12_HEAP_TYPE_DEFAULT, D3D12_RESOURCE_STATE_COMMON, False)"
| "buffer_usage_switch VertexBuffer = (D3D12_HEAP_TYPE_DEFAULT, D3D12_RESOURCE_STATE_COMMON, False)"
| "buffer_usage_switch OtherBufferUsage = (HEAP_TYPE_UNSET, D3D12_RESOURCE_STATE_COMMON, False)"

definition buffer_request :: "BufferCreateInfo \<Rightarrow> CreateResource_args" where
  "buffer_request create_info =
     (let (heap, state, should_map) = buffer_usage_switch (buffer_usage create_info)
      in \<lparr>HeapType = heap, desc = Desc_Buffer (buffer_create_size create_info), initial_state = state\<rparr>)"

text \<open>
  \<open>create_buffer\<close> returns a \<open>unique_ptr\<close>: \<open>None\<close> is the empty pointer of
  \<open>return {}\<close>. The source passes the buffer's name to a \<open>%s\<close> in a logger that
  formats with braces, so the name does not reach the message.
\<close>

definition create_buffer ::
  "CreateResource \<Rightarrow> BufferCreateInfo \<Rightarrow> D3D12Buffer option \<times> log_entry list" where
  "create_buffer device_allocator create_info =
     (let (heap, state, should_map) = buffer_usage_switch (buffer_usage create_info);
          (result, resource) = device_allocator (buffer_request create_info)
      in if FAILED result
         then (None, [(level_error, ''Could not create buffer %s'')])
         else (Some \<lparr>buffer_resource = Some resource, buffer_mapped = should_map,
                      buffer_bytes = buffer_create_size create_info,
                      buffer_object_name = buffer_name create_info\<rparr>, []))"

datatype ImageUsage = RenderTarget | SampledImage | DepthStencil | ImageUnorderedAccess | OtherImageUsage

datatype DXGI_FORMAT = DXGI_FORMAT_R8G8B8A8_UNORM | DXGI_FORMAT_R32_FLOAT | DXGI_FORMAT_D32_FLOAT

text \<open>
  The width and height of an image only reach the resource description that goes to the
  allocator; \<open>image_texels\<close> stands for them.
\<close>

record ImageCreateInfo =
  image_name :: string
  image_usage :: ImageUsage
  image_format :: DXGI_FORMAT
  image_texels :: nat

record D3D12Image =
  image_resource :: "ID3D12Resource option"
  format :: DXGI_FORMAT
  image_object_name :: string

definition image_initial_state :: "ImageCreateInfo \<Rightarrow> D3D12_RESOURCE_STATES \<times> log_entry list" where
  "image_initial_state create_info =
     (case image_usage create_info of
        RenderTarget \<Rightarrow> (D3D12_RESOURCE_STATE_RENDER_TARGET, [])
      | SampledImage \<Rightarrow> (D3D12_RESOURCE_STATE_SHADER_RESOURCE, [])
      | DepthStencil \<Rightarrow> (D3D12_RESOURCE_STATE_DEPTH_WRITE, [])
      | ImageUnorderedAccess \<Rightarrow> (D3D12_RESOURCE_STATE_UNORDERED_ACCESS, [])
      | OtherImageUsage \<Rightarrow>
          (D3D12_RESOURCE_STATE_COMMON,
           [(level_warn, ''Unrecognized usage for image '' @ image_name create_info
                         @ '', defaulting to the common resource state'')]))"

definition image_request :: "ImageCreateInfo \<Rightarrow> CreateResource_args" where
  "image_request create_info =
     \<lparr>HeapType = D3D12_HEAP_TYPE_DEFAULT, desc = Desc_Tex2D (image_texels create_info),
      initial_state = fst (image_initial_state create_info)\<rparr>"

definition create_image ::
  "CreateResource \<Rightarrow> ImageCreateInfo \<Rightarrow> D3D12Image option \<times> log_entry list" where
  "create_image device_allocator create_info =
     (let (state, usage_log) = image_initial_state create_info;
          (result, resource) = device_allocator (image_request create_info)
      in if FAILED result
         then (None, usage_log @ [(level_error, ''Could not create image %s'')])
         else (Some \<lparr>image_resource = Some resource, format = image_format create_info,
                      image_object_name = image_name create_info\<rparr>, usage_log))"

section \<open>Command lists and the command queue\<close>

text \<open>
  A vertex is 40 bytes: two \<open>vec3\<close>, two 32-bit integers and a \<open>vec2\<close>. Each float is
  kept as its 32 bits.
\<close>

record StandardVertex =
  position :: "uint32_t \<times> uint32_t \<times> uint32_t"
  normal :: "uint32_t \<times> uint32_t \<times> uint32_t"
  color :: uint32_t
  material_idx :: uint32_t
  texcoord :: "uint32_t \<times> uint32_t"

definition sizeof_StandardVertex :: nat where
  "sizeof_StandardVertex = 40"

definition sizeof_Uint32 :: nat where
  "sizeof_Uint32 = 4"

text \<open>
  What is recorded into a command list, and what is put on the direct command queue.
  \<open>CopyBufferRegion dst dst_offset data num_bytes\<close> copies the first \<open>num_bytes\<close> bytes
  of \<open>data\<close> to byte \<open>dst_offset\<close> of \<open>dst\<close>.
\<close>

datatype upload_data = VertexData "StandardVertex list" | IndexData "uint32_t list"

datatype gpu_command =
  ResourceBarrier ID3D12Resource D3D12_RESOURCE_STATES D3D12_RESOURCE_STATES
| CopyBufferRegion ID3D12Resource uint32_t upload_data uint32_t

record D3D12CommandList =
  list_id :: nat
  debug_name :: string
  recorded :: "gpu_command list"
  completion_functions :: "nat list"
  is_closed :: bool

datatype queue_op =
  ExecuteCommandLists nat
| Signal "ID3D12Fence option" uint64_t

section \<open>The render device\<close>

record D3D12StagingBuffer =
  staging_resource :: "ID3D12Resource option"
  staging_size :: nat
  staging_mapped :: bool
  staging_object_name :: string

text \<open>
  The staging buffer that \<open>return {}\<close> makes: every member value-initialised, so no
  resource and size 0.
\<close>

definition empty_staging_buffer :: D3D12StagingBuffer where
  "empty_staging_buffer =
     \<lparr>staging_resource = None, staging_size = 0, staging_mapped = False, staging_object_name = []\<rparr>"

fun to_string :: "nat \<Rightarrow> string" where
  "to_string n =
     (if n < 10 then [char_of (48 + n)] else to_string (n div 10) @ [char_of (48 + n mod 10)])"

declare to_string.simps [simp del]

text \<open>
  The members of the device that the operations below read or write. The direct command
  queue is the sequence of operations put on it so far; the GPU works through it in order.
\<close>

record D3D12RenderDevice =
  staging_buffers :: "D3D12StagingBuffer list"
  staging_buffer_idx :: uint32_t
  command_list_done_fences :: "ID3D12Fence option list"
  direct_command_queue :: "queue_op list"
  in_flight_command_lists :: "(ID3D12Fence option \<times> D3D12CommandList) list"
  done_command_lists :: "D3D12CommandList list"
  swapchain_images :: "ID3D12Resource list"
  frame_fences :: "ID3D12Fence list"
  frame_fence_values :: "uint64_t list"

subsection \<open>Staging buffers\<close>

definition staging_request :: "nat \<Rightarrow> CreateResource_args" where
  "staging_request num_bytes =
     \<lparr>HeapType = D3D12_HEAP_TYPE_UPLOAD, desc = Desc_Buffer num_bytes,
      initial_state = D3D12_RESOURCE_STATE_GENERIC_READ\<rparr>"

definition create_staging_buffer ::
  "CreateResource \<Rightarrow> nat \<Rightarrow> D3D12RenderDevice \<Rightarrow>
     D3D12StagingBuffer \<times> D3D12RenderDevice \<times> log_entry list" where
  "create_staging_buffer device_allocator num_bytes dev =
     (let (result, resource) = device_allocator (staging_request num_bytes)
      in if FAILED result
         then (empty_staging_buffer, dev, [(level_error, ''Could not create staging buffer'')])
         else (\<lparr>staging_resource = Some resource, staging_size = num_bytes, staging_mapped = True,
                 staging_object_name = ''Staging Buffer '' @ to_string (unat (staging_buffer_idx dev))\<rparr>,
               dev\<lparr>staging_buffer_idx := staging_buffer_idx dev + 1\<rparr>, []))"

text \<open>
  The body of the search loop of \<open>get_staging_buffer\<close> at index \<open>i\<close>, and the loop over
  \<open>i = 0, \<dots>, size - 1\<close> that starts from \<open>best_fit_idx = size\<close>.
\<close>

definition best_fit_step :: "D3D12StagingBuffer list \<Rightarrow> nat \<Rightarrow> nat \<Rightarrow> nat \<Rightarrow> nat" where
  "best_fit_step bufs num_bytes i best_fit_idx =
     (if staging_size (bufs ! i) \<ge> num_bytes
      then (if best_fit_idx \<ge> length bufs then i
            else if staging_size (bufs ! i) < staging_size (bufs ! best_fit_idx) then i
            else best_fit_idx)
      else best_fit_idx)"

definition find_best_fit :: "D3D12StagingBuffer list \<Rightarrow> nat \<Rightarrow> nat" where
  "find_best_fit bufs num_bytes =
     fold (best_fit_step bufs num_bytes) [0..<length bufs] (length bufs)"

definition get_staging_buffer ::
  "CreateResource \<Rightarrow> nat \<Rightarrow> D3D12RenderDevice \<Rightarrow>
     D3D12StagingBuffer \<times> D3D12RenderDevice \<times> log_entry list" where
  "get_staging_buffer device_allocator num_bytes dev =
     (let best_fit_idx = find_best_fit (staging_buffers dev) num_bytes
      in if best_fit_idx < length (staging_buffers dev)
         then (staging_buffers dev ! best_fit_idx,
               dev\<lparr>staging_buffers :=
                     take best_fit_idx (staging_buffers dev) @ drop (Suc best_fit_idx) (staging_buffers dev)\<rparr>,
               [])
         else create_staging_buffer device_allocator num_bytes dev)"

definition return_staging_buffer :: "D3D12StagingBuffer \<Rightarrow> D3D12RenderDevice \<Rightarrow> D3D12RenderDevice" where
  "return_staging_buffer buffer dev = dev\<lparr>staging_buffers := staging_buffers dev @ [buffer]\<rparr>"

subsection \<open>Fences for command lists\<close>

text \<open>
  What the source does where C++ defines no result, or where an assertion ends the
  program, is a value of \<open>device_error\<close>: a read outside a container, a call through a
  null pointer, a failed \<open>ENSURE\<close>, and the read of something that is not a buffer as
  a buffer.

  A read through a vector iterator is within bounds at positions below the size; the
  position of \<open>end()\<close> is the size.
\<close>

datatype device_error = OutOfBounds | NullDereference | EnsureFailed string | NotABuffer

definition deref_iterator :: "'a list \<Rightarrow> nat \<Rightarrow> device_error + 'a" where
  "deref_iterator xs pos = (if pos < length xs then Inr (xs ! pos) else Inl OutOfBounds)"

definition vector_end :: "'a list \<Rightarrow> nat" where
  "vector_end xs = length xs"

text \<open>
  \<open>CreateFence\<close> is the answer of \<open>device->CreateFence\<close>, should the call be made.
  When it fails the source logs twice and returns the null fence. The text that
  \<open>to_string\<close> gives for a result code is left out: each message ends where it would
  start.
\<close>

definition get_next_command_list_done_fence ::
  "HRESULT \<times> ID3D12Fence \<Rightarrow> D3D12RenderDevice \<Rightarrow>
     device_error + (ID3D12Fence option \<times> D3D12RenderDevice \<times> log_entry list)" where
  "get_next_command_list_done_fence CreateFence dev =
     (if command_list_done_fences dev \<noteq> []
      then (case deref_iterator (command_list_done_fences dev) (vector_end (command_list_done_fences dev)) of
              Inl e \<Rightarrow> Inl e
            | Inr fence \<Rightarrow>
                Inr (fence, dev\<lparr>command_list_done_fences := butlast (command_list_done_fences dev)\<rparr>, []))
      else (let (result, fence) = CreateFence
            in if FAILED result
               then Inr (None, dev, [(level_error, ''Could not create fence: ''),
                                     (level_error, ''Device removed reason: '')])
               else Inr (Some fence, dev, [])))"

section \<open>Auxiliary predicates and concrete inputs\<close>

text \<open>
  The invariant of the search loop after the indices below \<open>k\<close>: either nothing fits so
  far, or \<open>b\<close> is the first of the smallest buffers that fit.
\<close>

definition best_fit_inv :: "D3D12StagingBuffer list \<Rightarrow> nat \<Rightarrow> nat \<Rightarrow> nat \<Rightarrow> bool" where
  "best_fit_inv bufs n k b \<longleftrightarrow>
     (b = length bufs \<and> (\<forall>j<k. staging_size (bufs ! j) < n)) \<or>
     (b < k \<and> n \<le> staging_size (bufs ! b) \<and>
      (\<forall>j<k. n \<le> staging_size (bufs ! j) \<longrightarrow> staging_size (bufs ! b) \<le> staging_size (bufs ! j)) \<and>
      (\<forall>j<b. n \<le> staging_size (bufs ! j) \<longrightarrow> staging_size (bufs ! b) < staging_size (bufs ! j)))"

definition example_pool :: "D3D12StagingBuffer list" where
  "example_pool =
     [\<lparr>staging_resource = Some 1, staging_size = 64, staging_mapped = True, staging_object_name = ''Staging Buffer 0''\<rparr>,
      \<lparr>staging_resource = Some 2, staging_size = 16, staging_mapped = True, staging_object_name = ''Staging Buffer 1''\<rparr>,
      \<lparr>staging_resource = Some 3, staging_size = 32, staging_mapped = True, staging_object_name = ''Staging Buffer 2''\<rparr>]"

definition tie_pool :: "D3D12StagingBuffer list" where
  "tie_pool =
     [\<lparr>staging_resource = Some 1, staging_size = 32, staging_mapped = True, staging_object_name = ''Staging Buffer 0''\<rparr>,
      \<lparr>staging_resource = Some 2, staging_size = 16, staging_mapped = True, staging_object_name = ''Staging Buffer 1''\<rparr>,
      \<lparr>staging_resource = Some 3, staging_size = 16, staging_mapped = True, staging_object_name = ''Staging Buffer 2''\<rparr>]"

definition example_device :: "D3D12StagingBuffer list \<Rightarrow> ID3D12Fence option list \<Rightarrow> D3D12RenderDevice" where
  "example_device pool fences =
     \<lparr>staging_buffers = pool, staging_buffer_idx = 3, command_list_done_fences = fences,
      direct_command_queue = [], in_flight_command_lists = [], done_command_lists = [],
      swapchain_images = [100, 101], frame_fences = [200, 201], frame_fence_values = [0, 0]\<rparr>"

definition example_buffer_info :: BufferCreateInfo where
  "example_buffer_info = \<lparr>buffer_name = ''Vertices'', buffer_usage = VertexBuffer, buffer_create_size = 4096\<rparr>"

definition example_image_info :: ImageCreateInfo where
  "example_image_info =
     \<lparr>image_name = ''Albedo'', image_usage = SampledImage, image_format = DXGI_FORMAT_R8G8B8A8_UNORM,
      image_texels = 65536\<rparr>"

section \<open>MeshDataStore\<close>

record Mesh =
  first_vertex :: uint32_t
  num_vertices :: uint32_t
  first_index :: uint32_t
  num_indices :: uint32_t

text \<open>
  The store's two buffers are known by their resources; the three cursors are 32-bit and
  start at zero.
\<close>

record MeshDataStore =
  vertex_buffer :: ID3D12Resource
  index_buffer :: ID3D12Resource
  next_free_vertex_byte :: uint32_t
  next_vertex_offset :: uint32_t
  next_index_offset :: uint32_t

definition new_MeshDataStore :: "ID3D12Resource \<Rightarrow> ID3D12Resource \<Rightarrow> MeshDataStore" where
  "new_MeshDataStore vertex_buffer_in index_buffer_in =
     \<lparr>vertex_buffer = vertex_buffer_in, index_buffer = index_buffer_in,
      next_free_vertex_byte = 0, next_vertex_offset = 0, next_index_offset = 0\<rparr>"

definition begin_adding_meshes :: "gpu_command list \<Rightarrow> MeshDataStore \<Rightarrow> gpu_command list" where
  "begin_adding_meshes commands s =
     commands @
     [ResourceBarrier (vertex_buffer s) D3D12_RESOURCE_STATE_VERTEX_AND_CONSTANT_BUFFER D3D12_RESOURCE_STATE_COPY_DEST,
      ResourceBarrier (index_buffer s) D3D12_RESOURCE_STATE_INDEX_BUFFER D3D12_RESOURCE_STATE_COPY_DEST]"

text \<open>
  Modelled from the spec: \<open>upload_data_with_staging_buffer\<close> is declared in
  \<open>rhi/helpers.hpp\<close>, which is not among the sources. The spec has it upload the data
  through a staging buffer to the given offset of the destination; the model records the copy.
\<close>

definition upload_data_with_staging_buffer ::
  "gpu_command list \<Rightarrow> ID3D12Resource \<Rightarrow> upload_data \<Rightarrow> uint32_t \<Rightarrow> uint32_t \<Rightarrow> gpu_command list" where
  "upload_data_with_staging_buffer commands dst data num_bytes dst_offset =
     commands @ [CopyBufferRegion dst dst_offset data num_bytes]"

text \<open>
  \<open>add_mesh\<close>. Sizes are \<open>size_t\<close> products narrowed to 32 bits by \<open>static_cast\<close>;
  the cursors are advanced with 32-bit additions.
\<close>

definition add_mesh ::
  "StandardVertex list \<Rightarrow> uint32_t list \<Rightarrow> gpu_command list \<Rightarrow> MeshDataStore \<Rightarrow>
     Mesh \<times> MeshDataStore \<times> gpu_command list" where
  "add_mesh vertices indices commands s =
     (let vertex_data_size = (of_nat (length vertices * sizeof_StandardVertex) :: uint32_t);
          index_data_size = (of_nat (length indices * sizeof_Uint32) :: uint32_t);
          offset_indices = map (\<lambda>idx. idx + next_vertex_offset s) indices;
          index_buffer_byte_offset = (of_nat (unat (next_index_offset s) * sizeof_Uint32) :: uint32_t);
          commands1 = upload_data_with_staging_buffer commands (vertex_buffer s) (VertexData vertices)
                        vertex_data_size (next_free_vertex_byte s);
          commands2 = upload_data_with_staging_buffer commands1 (index_buffer s) (IndexData offset_indices)
                        index_data_size index_buffer_byte_offset;
          vertex_offset = (of_nat (unat (next_free_vertex_byte s) div sizeof_StandardVertex) :: uint32_t);
          index_offset = next_index_offset s
      in (\<lparr>first_vertex = vertex_offset, num_vertices = of_nat (length vertices),
           first_index = index_offset, num_indices = of_nat (length indices)\<rparr>,
          s\<lparr>next_free_vertex_byte := next_free_vertex_byte s + vertex_data_size,
            next_vertex_offset := next_vertex_offset s + of_nat (length vertices),
            next_index_offset := next_index_offset s + of_nat (length indices)\<rparr>,
          commands2))"

definition end_adding_meshes :: "gpu_command list \<Rightarrow> MeshDataStore \<Rightarrow> gpu_command list" where
  "end_adding_meshes commands s =
     commands @
     [ResourceBarrier (vertex_buffer s) D3D12_RESOURCE_STATE_COPY_DEST D3D12_RESOURCE_STATE_VERTEX_AND_CONSTANT_BUFFER,
      ResourceBarrier (index_buffer s) D3D12_RESOURCE_STATE_COPY_DEST D3D12_RESOURCE_STATE_INDEX_BUFFER]"

text \<open>A sequence of \<open>add_mesh\<close> calls, and such a sequence between one begin and end.\<close>

fun add_meshes ::
  "(StandardVertex list \<times> uint32_t list) list \<Rightarrow> gpu_command list \<Rightarrow> MeshDataStore \<Rightarrow>
     Mesh list \<times> MeshDataStore \<times> gpu_command list" where
  "add_meshes [] commands s = ([], s, commands)"
| "add_meshes (m # ms) commands s =
     (let (mesh, s1, commands1) = add_mesh (fst m) (snd m) commands s;
          (meshes, s2, commands2) = add_meshes ms commands1 s1
      in (mesh # meshes, s2, commands2))"

definition mesh_upload_session ::
  "(StandardVertex list \<times> uint32_t list) list \<Rightarrow> gpu_command list \<Rightarrow> MeshDataStore \<Rightarrow>
     Mesh list \<times> MeshDataStore \<times> gpu_command list" where
  "mesh_upload_session ms commands s =
     (let (meshes, s1, commands1) = add_meshes ms (begin_adding_meshes commands s) s
      in (meshes, s1, end_adding_meshes commands1 s1))"

text \<open>
  The 32-bit words that a copy into the index buffer writes, the range of vertices and
  the range of indices of a mesh.
\<close>

fun written_indices :: "gpu_command \<Rightarrow> uint32_t list" where
  "written_indices (CopyBufferRegion dst dst_offset (IndexData ws) num_bytes) =
     take (unat num_bytes div sizeof_Uint32) ws"
| "written_indices c = []"

definition vertex_range :: "Mesh \<Rightarrow> nat set" where
  "vertex_range m = {unat (first_vertex m) ..< unat (first_vertex m) + unat (num_vertices m)}"

definition index_range :: "Mesh \<Rightarrow> nat set" where
  "index_range m = {unat (first_index m) ..< unat (first_index m) + unat (num_indices m)}"

definition total_vertices :: "(StandardVertex list \<times> uint32_t list) list \<Rightarrow> nat" where
  "total_vertices ms = sum_list (map (\<lambda>m. length (fst m)) ms)"

definition total_indices :: "(StandardVertex list \<times> uint32_t list) list \<Rightarrow> nat" where
  "total_indices ms = sum_list (map (\<lambda>m. length (snd m)) ms)"

definition example_vertex :: StandardVertex where
  "example_vertex = \<lparr>position = (0, 0, 0), normal = (0, 0, 0), color = 0xFFFFFFFF, material_idx = 0, texcoord = (0, 0)\<rparr>"

text \<open>
  The vertex cursor in whole vertices, and the condition that the data of a sequence of
  meshes stays within what the 32-bit cursors can count.
\<close>

definition cursor_vertex :: "MeshDataStore \<Rightarrow> nat" where
  "cursor_vertex s = unat (next_free_vertex_byte s) div sizeof_StandardVertex"

definition fits_32_bits :: "(StandardVertex list \<times> uint32_t list) list \<Rightarrow> MeshDataStore \<Rightarrow> bool" where
  "fits_32_bits ms s \<longleftrightarrow>
     unat (next_free_vertex_byte s) + sizeof_StandardVertex * total_vertices ms < 2 ^ 32 \<and>
     unat (next_index_offset s) + total_indices ms < 2 ^ 32"

definition example_meshes :: "(StandardVertex list \<times> uint32_t list) list" where
  "example_meshes = [(replicate 10 example_vertex, [0, 1, 2]), (replicate 3 example_vertex, [0, 1, 2])]"

definition example_store :: MeshDataStore where
  "example_store = new_MeshDataStore 7 8"

section \<open>Bind groups\<close>

datatype RootParameterType =
  RootParameterType_Empty | RootParameterType_Descriptor | RootParameterType_DescriptorTable

datatype RootDescriptorType =
  RootDescriptorType_ConstantBuffer | RootDescriptorType_ShaderResource | RootDescriptorType_UnorderedAccess

type_synonym D3D12_GPU_VIRTUAL_ADDRESS = uint64_t
type_synonym D3D12_GPU_DESCRIPTOR_HANDLE = uint64_t
type_synonym D3D12_CPU_DESCRIPTOR_HANDLE = uint64_t

text \<open>
  A root parameter has a type, and the payload of a root descriptor or of a descriptor
  table. A new one is empty, with zero payloads.
\<close>

record RootParameter =
  param_type :: RootParameterType
  descriptor_type :: RootDescriptorType
  descriptor_address :: D3D12_GPU_VIRTUAL_ADDRESS
  table_handle :: D3D12_GPU_DESCRIPTOR_HANDLE

definition empty_RootParameter :: RootParameter where
  "empty_RootParameter =
     \<lparr>param_type = RootParameterType_Empty, descriptor_type = RootDescriptorType_ConstantBuffer,
      descriptor_address = 0, table_handle = 0\<rparr>"

record D3D12BindGroup =
  root_parameters :: "RootParameter list"

text \<open>
  The builder's \<open>unordered_map\<close> members are association lists; the order of a list is
  the order in which the map is iterated. The header that declares \<open>bound_buffers\<close> is
  not among the sources. \<open>set_buffer\<close> stores a buffer in it and \<open>set_image_array\<close>
  stores a vector of images in it, so an entry is one or the other.
\<close>

datatype bound_entry = BoundBuffer D3D12Buffer | BoundImages "D3D12Image list"

record D3D12BindGroupBuilder =
  root_descriptor_descriptions :: "(string \<times> uint32_t \<times> RootDescriptorType) list"
  descriptor_table_descriptor_mappings :: "(string \<times> D3D12_CPU_DESCRIPTOR_HANDLE) list"
  descriptor_table_handles :: "(uint32_t \<times> D3D12_GPU_DESCRIPTOR_HANDLE) list"
  bound_buffers :: "(string \<times> bound_entry) list"
  bound_images :: "(string \<times> D3D12Image list) list"

definition new_D3D12BindGroupBuilder ::
  "(string \<times> uint32_t \<times> RootDescriptorType) list \<Rightarrow> (string \<times> D3D12_CPU_DESCRIPTOR_HANDLE) list \<Rightarrow>
     (uint32_t \<times> D3D12_GPU_DESCRIPTOR_HANDLE) list \<Rightarrow> D3D12BindGroupBuilder" where
  "new_D3D12BindGroupBuilder root_descriptor_descriptions_in descriptor_table_descriptor_mappings_in
       descriptor_table_handles_in =
     \<lparr>root_descriptor_descriptions = root_descriptor_descriptions_in,
      descriptor_table_descriptor_mappings = descriptor_table_descriptor_mappings_in,
      descriptor_table_handles = descriptor_table_handles_in,
      bound_buffers = [], bound_images = []\<rparr>"

fun insert_or_assign :: "'k \<Rightarrow> 'v \<Rightarrow> ('k \<times> 'v) list \<Rightarrow> ('k \<times> 'v) list" where
  "insert_or_assign k v [] = [(k, v)]"
| "insert_or_assign k v (e # m) = (if fst e = k then (k, v) # m else e # insert_or_assign k v m)"

definition set_buffer :: "string \<Rightarrow> D3D12Buffer \<Rightarrow> D3D12BindGroupBuilder \<Rightarrow> D3D12BindGroupBuilder" where
  "set_buffer name buffer b = b\<lparr>bound_buffers := insert_or_assign name (BoundBuffer buffer) (bound_buffers b)\<rparr>"

definition set_image_array :: "string \<Rightarrow> D3D12Image list \<Rightarrow> D3D12BindGroupBuilder \<Rightarrow> D3D12BindGroupBuilder" where
  "set_image_array name images b =
     (let d3d12_images = images
      in b\<lparr>bound_buffers := insert_or_assign name (BoundImages d3d12_images) (bound_buffers b)\<rparr>)"

definition set_image :: "string \<Rightarrow> D3D12Image \<Rightarrow> D3D12BindGroupBuilder \<Rightarrow> D3D12BindGroupBuilder" where
  "set_image name img b = set_image_array name [img] b"

text \<open>
  Modelled from the spec: \<open>ENSURE\<close> is declared in \<open>core/ensure.hpp\<close>, which is not
  among the sources. The spec calls a failed one a fatal assertion; the model ends the
  build with \<open>EnsureFailed\<close> and the message.
\<close>

definition ENSURE :: "bool \<Rightarrow> string \<Rightarrow> (device_error + 'a) \<Rightarrow> device_error + 'a" where
  "ENSURE condition message continue = (if condition then continue else Inl (EnsureFailed message))"

text \<open>The first loop of \<open>build\<close>, over the descriptor table handles.\<close>

fun save_descriptor_tables ::
  "(uint32_t \<times> D3D12_GPU_DESCRIPTOR_HANDLE) list \<Rightarrow> RootParameter list \<Rightarrow> device_error + RootParameter list" where
  "save_descriptor_tables [] ps = Inr ps"
| "save_descriptor_tables (e # rest) ps =
     (let idx = unat (fst e); handle = snd e
      in ENSURE (idx < 64) ''May not have more than 64 descriptor tables in a single bind group''
           (save_descriptor_tables rest
              (ps[idx := (ps ! idx)\<lparr>param_type := RootParameterType_DescriptorTable, table_handle := handle\<rparr>])))"

text \<open>
  The address that the second loop gives to a root descriptor named \<open>name\<close>, or the
  warning it logs. \<open>GetGPUVirtualAddress\<close> is the GPU's answer for a resource. An entry
  of \<open>bound_buffers\<close> is read as a buffer; an entry that holds images has no buffer to
  read, which is \<open>NotABuffer\<close>.
\<close>

definition root_descriptor_payload ::
  "(ID3D12Resource \<Rightarrow> D3D12_GPU_VIRTUAL_ADDRESS) \<Rightarrow> D3D12BindGroupBuilder \<Rightarrow> string \<Rightarrow>
     device_error + (D3D12_GPU_VIRTUAL_ADDRESS option \<times> log_entry list)" where
  "root_descriptor_payload GetGPUVirtualAddress b name =
     (case map_of (bound_buffers b) name of
        Some (BoundBuffer buffer) \<Rightarrow>
          (case buffer_resource buffer of
             None \<Rightarrow> Inl NullDereference
           | Some resource \<Rightarrow> Inr (Some (GetGPUVirtualAddress resource), []))
      | Some (BoundImages images) \<Rightarrow> Inl NotABuffer
      | None \<Rightarrow>
          (case map_of (bound_images b) name of
             Some images \<Rightarrow>
               ENSURE (length images = 1) ''May only bind a single image to a root descriptor''
                 (case image_resource (images ! 0) of
                    None \<Rightarrow> Inl NullDereference
                  | Some resource \<Rightarrow> Inr (Some (GetGPUVirtualAddress resource), []))
           | None \<Rightarrow> Inr (None, [(level_warn, ''No resources bound to root descriptor '' @ name)])))"

text \<open>The second loop of \<open>build\<close>, over the declared root descriptors.\<close>

fun save_root_descriptors ::
  "(ID3D12Resource \<Rightarrow> D3D12_GPU_VIRTUAL_ADDRESS) \<Rightarrow> D3D12BindGroupBuilder \<Rightarrow>
     (string \<times> uint32_t \<times> RootDescriptorType) list \<Rightarrow> RootParameter list \<Rightarrow> log_entry list \<Rightarrow>
     device_error + (RootParameter list \<times> log_entry list)" where
  "save_root_descriptors GetGPUVirtualAddress b [] ps lg = Inr (ps, lg)"
| "save_root_descriptors GetGPUVirtualAddress b (e # rest) ps lg =
     (let name = fst e; idx = unat (fst (snd e)); type = snd (snd e)
      in ENSURE (idx < 32) ''May not have more than 32 root descriptors in a single bind group''
        (ENSURE (param_type (ps ! idx) = RootParameterType_Empty)
           (''Root parameter index '' @ to_string idx @ '' already used'')
           (let ps1 = ps[idx := (ps ! idx)\<lparr>param_type := RootParameterType_Descriptor,
                                             descriptor_type := type\<rparr>]
            in case root_descriptor_payload GetGPUVirtualAddress b name of
                 Inl err \<Rightarrow> Inl err
               | Inr (payload, warnings) \<Rightarrow>
                   save_root_descriptors GetGPUVirtualAddress b rest
                     (case payload of
                        None \<Rightarrow> ps1
                      | Some address \<Rightarrow> ps1[idx := (ps1 ! idx)\<lparr>descriptor_address := address\<rparr>])
                     (lg @ warnings))))"

definition build ::
  "(ID3D12Resource \<Rightarrow> D3D12_GPU_VIRTUAL_ADDRESS) \<Rightarrow> D3D12BindGroupBuilder \<Rightarrow>
     device_error + (D3D12BindGroup \<times> log_entry list)" where
  "build GetGPUVirtualAddress b =
     (case save_descriptor_tables (descriptor_table_handles b) (replicate 64 empty_RootParameter) of
        Inl err \<Rightarrow> Inl err
      | Inr ps \<Rightarrow>
          (case save_root_descriptors GetGPUVirtualAddress b (root_descriptor_descriptions b) ps [] of
             Inl err \<Rightarrow> Inl err
           | Inr (ps', lg) \<Rightarrow> Inr (\<lparr>root_parameters = ps'\<rparr>, lg)))"

text \<open>
  What a builder must satisfy for its declarations to pass the assertions of \<open>build\<close>,
  and what it means for a declared root descriptor to be bound to a usable resource or to
  nothing.
\<close>

definition valid_declarations :: "D3D12BindGroupBuilder \<Rightarrow> bool" where
  "valid_declarations b \<longleftrightarrow>
     list_all (\<lambda>e. unat (fst e) < 64) (descriptor_table_handles b) \<and>
     list_all (\<lambda>e. unat (fst (snd e)) < 32) (root_descriptor_descriptions b) \<and>
     distinct (map fst (root_descriptor_descriptions b)) \<and>
     distinct (map (\<lambda>e. unat (fst (snd e))) (root_descriptor_descriptions b)) \<and>
     list_all (\<lambda>e. unat (fst (snd e)) \<notin> set (map (\<lambda>t. unat (fst t)) (descriptor_table_handles b)))
       (root_descriptor_descriptions b)"

definition unbound :: "D3D12BindGroupBuilder \<Rightarrow> string \<Rightarrow> bool" where
  "unbound b name \<longleftrightarrow> map_of (bound_buffers b) name = None \<and> map_of (bound_images b) name = None"

definition usably_bound :: "D3D12BindGroupBuilder \<Rightarrow> string \<Rightarrow> bool" where
  "usably_bound b name \<longleftrightarrow>
     (case map_of (bound_buffers b) name of
        Some (BoundBuffer buffer) \<Rightarrow> buffer_resource buffer \<noteq> None
      | Some (BoundImages images) \<Rightarrow> False
      | None \<Rightarrow>
          (case map_of (bound_images b) name of
             Some images \<Rightarrow> length images = 1 \<and> image_resource (images ! 0) \<noteq> None
           | None \<Rightarrow> False))"

definition example_address :: "ID3D12Resource \<Rightarrow> D3D12_GPU_VIRTUAL_ADDRESS" where
  "example_address resource = of_nat resource * 65536"

definition example_image :: D3D12Image where
  "example_image = \<lparr>image_resource = Some 9, format = DXGI_FORMAT_R8G8B8A8_UNORM, image_object_name = ''Albedo''\<rparr>"

definition example_buffer :: D3D12Buffer where
  "example_buffer = \<lparr>buffer_resource = Some 4, buffer_mapped = True, buffer_bytes = 256,
                      buffer_object_name = ''Camera''\<rparr>"

definition example_builder :: D3D12BindGroupBuilder where
  "example_builder =
     new_D3D12BindGroupBuilder
       [(''camera'', 0, RootDescriptorType_ConstantBuffer), (''albedo'', 1, RootDescriptorType_ShaderResource)]
       [(''textures'', 4096)]
       [(2, 8192)]"

definition example_bound_builder :: D3D12BindGroupBuilder where
  "example_bound_builder = set_buffer ''camera'' example_buffer example_builder"


definition no_resources_warning :: "string \<Rightarrow> log_entry" where
  "no_resources_warning name = (level_warn, ''No resources bound to root descriptor '' @ name)"

section \<open>Submission and the frame cycle\<close>

text \<open>
  \<open>CPU_FENCE_SIGNALED\<close> is declared in \<open>core/constants.hpp\<close>, which is not among the
  sources. A fence is created with value 0, so the constant is a value above 0.
\<close>

definition CPU_FENCE_SIGNALED :: uint64_t where
  "CPU_FENCE_SIGNALED = 32"

text \<open>
  \<open>create_render_command_list\<close>; \<open>CreateCommandList\<close> is the answer of the device: the
  result code and the new list.
\<close>

definition create_render_command_list ::
  "HRESULT \<times> nat \<Rightarrow> D3D12CommandList option \<times> log_entry list" where
  "create_render_command_list CreateCommandList =
     (let (result, cmds) = CreateCommandList
      in if FAILED result
         then (None, [(level_error, ''Could not create render command list'')])
         else (Some \<lparr>list_id = cmds, debug_name = [], recorded = [], completion_functions = [],
                      is_closed = False\<rparr>, []))"

text \<open>
  Modelled from the spec: the class \<open>D3D12CommandList\<close> is not among the sources. By the
  spec, submission closes the recording of a list, and a reclaimed list has its queued
  completion callbacks executed.
\<close>

definition prepare_for_submission :: "D3D12CommandList \<Rightarrow> D3D12CommandList" where
  "prepare_for_submission l = l\<lparr>is_closed := True\<rparr>"

definition execute_completion_functions :: "D3D12CommandList \<Rightarrow> nat list" where
  "execute_completion_functions l = completion_functions l"

text \<open>
  \<open>submit_command_list\<close>. The argument is a \<open>unique_ptr\<close>; the source calls through it
  without a check.
\<close>

definition submit_command_list ::
  "HRESULT \<times> ID3D12Fence \<Rightarrow> D3D12CommandList option \<Rightarrow> D3D12RenderDevice \<Rightarrow>
     device_error + (D3D12RenderDevice \<times> log_entry list)" where
  "submit_command_list CreateFence commands dev =
     (case commands of
        None \<Rightarrow> Inl NullDereference
      | Some d3d12_commands \<Rightarrow>
          (let closed_commands = prepare_for_submission d3d12_commands;
               dev1 = dev\<lparr>direct_command_queue :=
                            direct_command_queue dev @ [ExecuteCommandLists (list_id closed_commands)]\<rparr>
           in case get_next_command_list_done_fence CreateFence dev1 of
                Inl e \<Rightarrow> Inl e
              | Inr (command_list_done_fence, dev2, lg) \<Rightarrow>
                  Inr (dev2\<lparr>direct_command_queue :=
                              direct_command_queue dev2 @ [Signal command_list_done_fence CPU_FENCE_SIGNALED],
                            in_flight_command_lists :=
                              in_flight_command_lists dev2 @ [(command_list_done_fence, closed_commands)]\<rparr>,
                       lg)))"

text \<open>
  The first block of \<open>begin_frame\<close>: while the done queue is not empty, take its front,
  execute the completion functions of that list and delete it. The result is what was
  executed, list by list.
\<close>

fun reclaim_loop :: "D3D12CommandList list \<Rightarrow> (nat \<times> nat list) list \<Rightarrow> (nat \<times> nat list) list" where
  "reclaim_loop [] executed = executed"
| "reclaim_loop (list # rest) executed =
     reclaim_loop rest (executed @ [(list_id list, execute_completion_functions list)])"

definition reclaim_done_command_lists ::
  "D3D12RenderDevice \<Rightarrow> (nat \<times> nat list) list \<times> D3D12RenderDevice" where
  "reclaim_done_command_lists dev =
     (reclaim_loop (done_command_lists dev) [], dev\<lparr>done_command_lists := []\<rparr>)"



text \<open>
  The rest of \<open>begin_frame\<close>, from the increment of the slot's fence value to the
  submission of the list that takes the swapchain image to the render target state.
\<close>

definition begin_frame_after_wait ::
  "HRESULT \<times> nat \<Rightarrow> HRESULT \<times> ID3D12Fence \<Rightarrow> nat \<Rightarrow> D3D12RenderDevice \<Rightarrow>
     device_error + (D3D12RenderDevice \<times> log_entry list)" where
  "begin_frame_after_wait CreateCommandList CreateFence cur_swapchain_idx dev =
     (if cur_swapchain_idx < length (frame_fence_values dev) \<and> cur_swapchain_idx < length (swapchain_images dev)
      then (let dev1 = dev\<lparr>frame_fence_values :=
                             (frame_fence_values dev)[cur_swapchain_idx :=
                                frame_fence_values dev ! cur_swapchain_idx + 1]\<rparr>;
                (cmds, lg) = create_render_command_list CreateCommandList
            in case cmds of
                 None \<Rightarrow> Inl NullDereference
               | Some swapchain_cmds \<Rightarrow>
                   (case submit_command_list CreateFence
                           (Some (swapchain_cmds\<lparr>debug_name := ''Transition Swapchain to Render Target'',
                                   recorded := recorded swapchain_cmds @
                                     [ResourceBarrier (swapchain_images dev1 ! cur_swapchain_idx)
                                        D3D12_RESOURCE_STATE_COMMON D3D12_RESOURCE_STATE_RENDER_TARGET]\<rparr>))
                           dev1 of
                      Inl e \<Rightarrow> Inl e
                    | Inr (dev2, lg2) \<Rightarrow> Inr (dev2, lg @ lg2)))
      else Inl OutOfBounds)"












section \<open>The render thread, the completion worker and the GPU\<close>

text \<open>
  A run interleaves the render thread, the worker of \<open>wait_for_command_lists\<close> and the
  GPU. Each event is one step that the source takes under a mutex or between two of them.

  The world holds the device; the pair that the worker holds between taking it from the
  in-flight queue and handing its list to the done queue; the fence on which the worker has
  called \<open>SetEventOnCompletion\<close> for that pair, from that call until its
  \<open>WaitForSingleObject\<close> returns; the state of the worker's event; how many operations of
  the direct queue the GPU has completed; and the next unused object identity.

  The worker creates its event once, before its loop, as an auto-reset event that is not
  set. \<open>SetEventOnCompletion\<close> on a fence that has reached the value sets the event at
  once; otherwise the fence keeps the request and sets the event when it reaches the
  value. \<open>event_fences\<close> are the fences that hold such a request. A wait that returns
  because the event is set resets the event; a wait that times out leaves the request with
  the fence.

  Three histories are kept to state properties of a run: the lists submitted, the waits of
  the worker that returned (the list, the fence and the result of the wait), and the lists
  whose completion functions were executed.
\<close>

datatype wait_result = WAIT_OBJECT_0 | WAIT_TIMEOUT

record render_world =
  device :: D3D12RenderDevice
  cur_pair :: "(ID3D12Fence option \<times> D3D12CommandList) option"
  awaited_fence :: "ID3D12Fence option"
  event_is_set :: bool
  event_fences :: "ID3D12Fence list"
  gpu_completed_ops :: nat
  next_object :: nat
  submitted :: "(nat \<times> nat list) list"
  waits :: "(nat \<times> ID3D12Fence \<times> wait_result) list"
  invoked :: "(nat \<times> nat list) list"

datatype event =
  Ev_Submit "nat list"
| Ev_BeginFrame nat
| Ev_GpuCompletesOp
| Ev_WorkerTakesPair
| Ev_WorkerSetsEvent
| Ev_WorkerWaitReturns

definition initial_world :: "nat \<Rightarrow> render_world" where
  "initial_world num_frames =
     \<lparr>device = \<lparr>staging_buffers = [], staging_buffer_idx = 0, command_list_done_fences = [],
                 direct_command_queue = [], in_flight_command_lists = [], done_command_lists = [],
                 swapchain_images = [0..<num_frames],
                 frame_fences = [num_frames..<num_frames + num_frames],
                 frame_fence_values = replicate num_frames 0\<rparr>,
      cur_pair = None, awaited_fence = None, event_is_set = False, event_fences = [],
      gpu_completed_ops = 0, next_object = num_frames + num_frames,
      submitted = [], waits = [], invoked = []\<rparr>"

text \<open>
  The value of a fence is the value of the last signal on it that the GPU has completed,
  and 0, the value it is created with, before the first.
\<close>

fun signal_on :: "ID3D12Fence \<Rightarrow> queue_op \<Rightarrow> uint64_t \<Rightarrow> uint64_t" where
  "signal_on fence (Signal f v) cur = (if f = Some fence then v else cur)"
| "signal_on fence (ExecuteCommandLists l) cur = cur"

definition fence_value :: "render_world \<Rightarrow> ID3D12Fence \<Rightarrow> uint64_t" where
  "fence_value w fence =
     fold (signal_on fence) (take (gpu_completed_ops w) (direct_command_queue (device w))) 0"

text \<open>
  \<open>Ev_Submit cbs\<close>: the render thread creates a render command list, gives it the
  completion functions \<open>cbs\<close> and submits it. \<open>Ev_BeginFrame idx\<close>: a \<open>begin_frame\<close>
  whose wait for slot \<open>idx\<close> is over. \<open>Ev_GpuCompletesOp\<close>: the GPU completes the next
  operation of the direct queue; a signal that takes a fence to \<open>CPU_FENCE_SIGNALED\<close> or
  above sets the event if the fence holds a request of the worker.
  \<open>Ev_WorkerTakesPair\<close>: the worker takes the front of the in-flight queue, or finds it
  empty. \<open>Ev_WorkerSetsEvent\<close>: the worker calls \<open>SetEventOnCompletion\<close> on the fence
  of its pair, through the pointer without a check. \<open>Ev_WorkerWaitReturns\<close>: the
  worker's wait of at most two seconds on its event returns, because the event is set or
  because the time is up, and the worker puts the list on the done queue without a look at
  the result. Object creation succeeds in a run and yields unused identities.
\<close>

definition step :: "event \<Rightarrow> render_world \<Rightarrow> device_error + render_world" where
  "step ev w =
     (case ev of
        Ev_Submit cbs \<Rightarrow>
          (case create_render_command_list (S_OK, next_object w) of
             (None, lg) \<Rightarrow> Inl NullDereference
           | (Some cmds, lg) \<Rightarrow>
               (case submit_command_list (S_OK, Suc (next_object w))
                       (Some (cmds\<lparr>completion_functions := cbs\<rparr>)) (device w) of
                  Inl e \<Rightarrow> Inl e
                | Inr (dev, lg1) \<Rightarrow>
                    Inr (w\<lparr>device := dev, next_object := next_object w + 2,
                           submitted := submitted w @ [(next_object w, cbs)]\<rparr>)))
      | Ev_BeginFrame idx \<Rightarrow>
          (let (executed, dev1) = reclaim_done_command_lists (device w)
           in case begin_frame_after_wait (S_OK, next_object w) (S_OK, Suc (next_object w)) idx dev1 of
                Inl e \<Rightarrow> Inl e
              | Inr (dev2, lg) \<Rightarrow>
                  Inr (w\<lparr>device := dev2, next_object := next_object w + 2,
                         submitted := submitted w @ [(next_object w, [])],
                         invoked := invoked w @ executed\<rparr>))
      | Ev_GpuCompletesOp \<Rightarrow>
          (if gpu_completed_ops w < length (direct_command_queue (device w))
           then (case direct_command_queue (device w) ! gpu_completed_ops w of
                   ExecuteCommandLists l \<Rightarrow> Inr (w\<lparr>gpu_completed_ops := Suc (gpu_completed_ops w)\<rparr>)
                 | Signal None v \<Rightarrow> Inr (w\<lparr>gpu_completed_ops := Suc (gpu_completed_ops w)\<rparr>)
                 | Signal (Some fence) v \<Rightarrow>
                     (if CPU_FENCE_SIGNALED \<le> v \<and> fence \<in> set (event_fences w)
                      then Inr (w\<lparr>gpu_completed_ops := Suc (gpu_completed_ops w),
                                 event_is_set := True,
                                 event_fences := removeAll fence (event_fences w)\<rparr>)
                      else Inr (w\<lparr>gpu_completed_ops := Suc (gpu_completed_ops w)\<rparr>)))
           else Inr w)
      | Ev_WorkerTakesPair \<Rightarrow>
          (case cur_pair w of
             Some p \<Rightarrow> Inr w
           | None \<Rightarrow>
               (case in_flight_command_lists (device w) of
                  [] \<Rightarrow> Inr w
                | p # rest \<Rightarrow>
                    Inr (w\<lparr>cur_pair := Some p,
                           device := (device w)\<lparr>in_flight_command_lists := rest\<rparr>\<rparr>)))
      | Ev_WorkerSetsEvent \<Rightarrow>
          (case (cur_pair w, awaited_fence w) of
             (Some (None, list), None) \<Rightarrow> Inl NullDereference
           | (Some (Some fence, list), None) \<Rightarrow>
               (if CPU_FENCE_SIGNALED \<le> fence_value w fence
                then Inr (w\<lparr>awaited_fence := Some fence, event_is_set := True\<rparr>)
                else Inr (w\<lparr>awaited_fence := Some fence, event_fences := event_fences w @ [fence]\<rparr>))
           | other \<Rightarrow> Inr w)
      | Ev_WorkerWaitReturns \<Rightarrow>
          (case (cur_pair w, awaited_fence w) of
             (Some (first, list), Some fence) \<Rightarrow>
               Inr (w\<lparr>cur_pair := None, awaited_fence := None, event_is_set := False,
                      device := (device w)\<lparr>done_command_lists := done_command_lists (device w) @ [list]\<rparr>,
                      waits := waits w @
                        [(list_id list, fence, if event_is_set w then WAIT_OBJECT_0 else WAIT_TIMEOUT)]\<rparr>)
           | other \<Rightarrow> Inr w))"

fun run :: "event list \<Rightarrow> render_world \<Rightarrow> device_error + render_world" where
  "run [] w = Inr w"
| "run (ev # evs) w = (case step ev w of Inl e \<Rightarrow> Inl e | Inr w' \<Rightarrow> run evs w')"











definition timed_out_run :: "event list" where
  "timed_out_run =
     [Ev_Submit [7], Ev_WorkerTakesPair, Ev_WorkerSetsEvent, Ev_WorkerWaitReturns, Ev_BeginFrame 0]"

definition stale_request_run :: "event list" where
  "stale_request_run =
     [Ev_Submit [7], Ev_Submit [8], Ev_WorkerTakesPair, Ev_WorkerSetsEvent, Ev_WorkerWaitReturns,
      Ev_WorkerTakesPair, Ev_WorkerSetsEvent, Ev_GpuCompletesOp, Ev_GpuCompletesOp,
      Ev_WorkerWaitReturns, Ev_BeginFrame 0]"

section \<open>Properties of the material buffer\<close>

lemma next_index_differs:
  fixes S n :: uint32_t
  assumes S0: "0 < S" and S31: "S < 2 ^ 31"
  shows "(S * (n div S + 1 + 1)) div S \<noteq> n div S"
proof -
  let ?s = "unat S" and ?q = "unat n div unat S"
  have s0: "0 < ?s" using S0 by (simp add: word_less_nat_alt)
  have s31: "?s < 2147483648" using S31 by (simp add: word_less_nat_alt)
  have n32: "unat n < 4294967296" using unsigned_less [of n] by simp
  have qs: "?s * ?q \<le> unat n" by simp
  have m: "unat (S * (n div S + 1 + 1)) = (?s * (?q + 2)) mod 2 ^ 32"
    by (simp add: unat_word_ariths unat_div mod_mult_right_eq mod_simps)
  have "((?s * (?q + 2)) mod 2 ^ 32) div ?s \<noteq> ?q"
  proof (cases "?s * (?q + 2) < 2 ^ 32")
    case True
    then show ?thesis using s0 by simp
  next
    case False
    have ex: "?s * (?q + 2) = ?s * ?q + 2 * ?s" by (simp add: algebra_simps)
    have lt: "?s * (?q + 2) < 2 * 4294967296" using qs n32 s31 unfolding ex by linarith
    have ge: "4294967296 \<le> ?s * (?q + 2)" using False by simp
    have "(?s * (?q + 2)) mod 2 ^ 32 = ?s * (?q + 2) - 4294967296"
      using ge lt by (simp add: mod_if)
    also have "\<dots> < ?s * ?q" using s31 ge unfolding ex by linarith
    finally have "((?s * (?q + 2)) mod 2 ^ 32) div ?s < ?q"
      using s0 by (simp add: div_less_iff_less_mult mult.commute)
    then show ?thesis by simp
  qed
  then have "unat ((S * (n div S + 1 + 1)) div S) \<noteq> unat (n div S)"
    unfolding unat_div m .
  then show ?thesis by auto
qed


text \<open>
  C5. Two consecutive calls of \<open>get_next_free_material\<close> for the same struct type of
  size \<open>S\<close> return handles whose byte ranges \<open>[index * S, (index + 1) * S)\<close> do not
  overlap, and the byte offset of each handle is a multiple of \<open>S\<close>. The size is that
  of a struct of which two fit a buffer addressed by 32-bit byte counts: \<open>0 < S < 2^31\<close>.
\<close>

theorem get_next_free_material_no_overlap:
  assumes "0 < S" and "S < 2 ^ 31"
    and "get_next_free_material S b = (h1, b1)"
    and "get_next_free_material S b1 = (h2, b2)"
  shows "material_byte_range S h1 \<inter> material_byte_range S h2 = {}
       \<and> unat S dvd material_byte_offset S h1
       \<and> unat S dvd material_byte_offset S h2"
proof -
  have i1: "index h1 = num_allocated_bytes b div S + 1"
    and n1: "num_allocated_bytes b1 = S * (num_allocated_bytes b div S + 1 + 1)"
    using assms(3) by (auto simp: get_next_free_material_def Let_def)
  have i2: "index h2 = num_allocated_bytes b1 div S + 1"
    using assms(4) by (auto simp: get_next_free_material_def Let_def)
  have "num_allocated_bytes b1 div S \<noteq> num_allocated_bytes b div S"
    unfolding n1 by (rule next_index_differs [OF assms(1,2)])
  then have "index h1 \<noteq> index h2"
    by (simp add: i1 i2)
  then have ne: "unat (index h1) \<noteq> unat (index h2)"
    by (simp add: word_unat_eq_iff)
  have disj: "{i * s ..< i * s + s} \<inter> {j * s ..< j * s + s} = {}" if "i \<noteq> j" for i j s :: nat
  proof (cases "i < j")
    case True
    then have "Suc i \<le> j" by simp
    then have "Suc i * s \<le> j * s" by (rule mult_le_mono1)
    then show ?thesis by auto
  next
    case False
    with that have "Suc j \<le> i" by simp
    then have "Suc j * s \<le> i * s" by (rule mult_le_mono1)
    then show ?thesis by auto
  qed
  show ?thesis
    using disj [OF ne] by (simp add: material_byte_range_def material_byte_offset_def)
qed

theorem get_next_free_material_no_overlap_witness:
  "material_byte_range 16 \<lparr>index = 1\<rparr> \<inter> material_byte_range 16 \<lparr>index = 3\<rparr> = {}
   \<and> unat (16 :: uint32_t) dvd material_byte_offset 16 \<lparr>index = 1\<rparr>
   \<and> unat (16 :: uint32_t) dvd material_byte_offset 16 \<lparr>index = 3\<rparr>"
  using get_next_free_material_no_overlap [of 16 "\<lparr>buffer_size = 1024, num_allocated_bytes = 0\<rparr>"
      "\<lparr>index = 1\<rparr>" "\<lparr>buffer_size = 1024, num_allocated_bytes = 32\<rparr>"
      "\<lparr>index = 3\<rparr>" "\<lparr>buffer_size = 1024, num_allocated_bytes = 64\<rparr>"]
  by (simp add: get_next_free_material_def)

section \<open>Properties of the render device\<close>

lemma FAILED_E_OUTOFMEMORY: "FAILED E_OUTOFMEMORY"
  by (simp add: FAILED_def E_OUTOFMEMORY_def)

lemma not_FAILED_S_OK: "\<not> FAILED S_OK"
  by (simp add: FAILED_def S_OK_def)

lemma upt_fold_Suc: "fold f [0..<Suc k] a = f k (fold f [0..<k] a)"
  by simp

lemma best_fit_inv_step:
  assumes "best_fit_inv bufs n k b" and "k < length bufs"
  shows "best_fit_inv bufs n (Suc k) (best_fit_step bufs n k b)"
proof (cases "n \<le> staging_size (bufs ! k)")
  case False
  then have "best_fit_step bufs n k b = b" by (simp add: best_fit_step_def)
  with assms False show ?thesis
    by (auto simp: best_fit_inv_def less_Suc_eq)
next
  case fits: True
  show ?thesis
  proof (cases "b \<ge> length bufs")
    case True
    with assms have none: "\<forall>j<k. staging_size (bufs ! j) < n"
      by (auto simp: best_fit_inv_def)
    from True fits have "best_fit_step bufs n k b = k" by (simp add: best_fit_step_def)
    with none fits show ?thesis
      by (auto simp: best_fit_inv_def less_Suc_eq)
  next
    case False
    with assms have b: "b < k" "n \<le> staging_size (bufs ! b)"
      and bmin: "\<And>j. j < k \<Longrightarrow> n \<le> staging_size (bufs ! j) \<Longrightarrow> staging_size (bufs ! b) \<le> staging_size (bufs ! j)"
      and bfirst: "\<And>j. j < b \<Longrightarrow> n \<le> staging_size (bufs ! j) \<Longrightarrow> staging_size (bufs ! b) < staging_size (bufs ! j)"
      by (auto simp: best_fit_inv_def)
    show ?thesis
    proof (cases "staging_size (bufs ! k) < staging_size (bufs ! b)")
      case True
      with False fits have eq: "best_fit_step bufs n k b = k" by (simp add: best_fit_step_def)
      have 1: "staging_size (bufs ! k) \<le> staging_size (bufs ! j)"
        if "j < Suc k" "n \<le> staging_size (bufs ! j)" for j
      proof (cases "j = k")
        case True then show ?thesis by simp
      next
        case False
        with that have "j < k" by simp
        from bmin [OF this that(2)] True show ?thesis by simp
      qed
      have 2: "staging_size (bufs ! k) < staging_size (bufs ! j)"
        if "j < k" "n \<le> staging_size (bufs ! j)" for j
        using bmin [OF that] True by simp
      show ?thesis
        unfolding eq best_fit_inv_def using fits 1 2 by blast
    next
      case nl: False
      with False fits have eq: "best_fit_step bufs n k b = b" by (simp add: best_fit_step_def)
      have 1: "staging_size (bufs ! b) \<le> staging_size (bufs ! j)"
        if "j < Suc k" "n \<le> staging_size (bufs ! j)" for j
      proof (cases "j = k")
        case True with nl show ?thesis by simp
      next
        case False
        with that have "j < k" by simp
        from bmin [OF this that(2)] show ?thesis .
      qed
      have "b < Suc k" using b(1) by simp
      then show ?thesis
        unfolding eq best_fit_inv_def using b(2) 1 bfirst by blast
    qed
  qed
qed

lemma best_fit_inv_fold:
  "k \<le> length bufs \<Longrightarrow>
   best_fit_inv bufs n k (fold (best_fit_step bufs n) [0..<k] (length bufs))"
proof (induction k)
  case 0
  then show ?case by (simp add: best_fit_inv_def)
next
  case (Suc k)
  then have "best_fit_inv bufs n k (fold (best_fit_step bufs n) [0..<k] (length bufs))" by simp
  from best_fit_inv_step [OF this] Suc.prems show ?case
    by (simp del: upt_Suc add: upt_fold_Suc)
qed

lemma find_best_fit_inv: "best_fit_inv bufs n (length bufs) (find_best_fit bufs n)"
  unfolding find_best_fit_def by (rule best_fit_inv_fold) simp

lemma find_best_fit_hit:
  assumes "\<exists>b\<in>set bufs. n \<le> staging_size b"
  shows "find_best_fit bufs n < length bufs
       \<and> n \<le> staging_size (bufs ! find_best_fit bufs n)
       \<and> (\<forall>b\<in>set bufs. n \<le> staging_size b \<longrightarrow> staging_size (bufs ! find_best_fit bufs n) \<le> staging_size b)
       \<and> (\<forall>j<find_best_fit bufs n.
             n \<le> staging_size (bufs ! j) \<longrightarrow> staging_size (bufs ! find_best_fit bufs n) < staging_size (bufs ! j))"
proof -
  let ?b = "find_best_fit bufs n"
  from assms obtain j where j: "j < length bufs" "n \<le> staging_size (bufs ! j)"
    by (auto simp: in_set_conv_nth)
  have inv: "best_fit_inv bufs n (length bufs) ?b" by (rule find_best_fit_inv)
  have "\<not> (\<forall>j<length bufs. staging_size (bufs ! j) < n)"
    using j by (auto simp: not_less)
  with inv have lt: "?b < length bufs" and fit: "n \<le> staging_size (bufs ! ?b)"
    and least: "\<And>j. j < length bufs \<Longrightarrow> n \<le> staging_size (bufs ! j)
                  \<Longrightarrow> staging_size (bufs ! ?b) \<le> staging_size (bufs ! j)"
    and first: "\<And>j. j < ?b \<Longrightarrow> n \<le> staging_size (bufs ! j)
                  \<Longrightarrow> staging_size (bufs ! ?b) < staging_size (bufs ! j)"
    unfolding best_fit_inv_def by blast+
  have "staging_size (bufs ! ?b) \<le> staging_size b" if "b \<in> set bufs" "n \<le> staging_size b" for b
  proof -
    from that(1) obtain i where "i < length bufs" "bufs ! i = b" by (auto simp: in_set_conv_nth)
    with least [of i] that(2) show ?thesis by simp
  qed
  with lt fit first show ?thesis by blast
qed

lemma find_best_fit_miss:
  assumes "\<not> (\<exists>b\<in>set bufs. n \<le> staging_size b)"
  shows "find_best_fit bufs n = length bufs"
proof -
  have inv: "best_fit_inv bufs n (length bufs) (find_best_fit bufs n)" by (rule find_best_fit_inv)
  have "\<not> n \<le> staging_size (bufs ! find_best_fit bufs n)" if "find_best_fit bufs n < length bufs"
    using assms that nth_mem by blast
  with inv show ?thesis
    unfolding best_fit_inv_def by blast
qed

lemma get_staging_buffer_hit:
  assumes "find_best_fit (staging_buffers dev) num_bytes < length (staging_buffers dev)"
  shows "get_staging_buffer device_allocator num_bytes dev =
           (staging_buffers dev ! find_best_fit (staging_buffers dev) num_bytes,
            dev\<lparr>staging_buffers := take (find_best_fit (staging_buffers dev) num_bytes) (staging_buffers dev)
                    @ drop (Suc (find_best_fit (staging_buffers dev) num_bytes)) (staging_buffers dev)\<rparr>, [])"
  using assms by (simp add: get_staging_buffer_def Let_def)

lemma get_staging_buffer_miss:
  assumes "find_best_fit (staging_buffers dev) num_bytes = length (staging_buffers dev)"
  shows "get_staging_buffer device_allocator num_bytes dev =
           create_staging_buffer device_allocator num_bytes dev"
  using assms by (simp add: get_staging_buffer_def Let_def)

lemma create_staging_buffer_result:
  "create_staging_buffer device_allocator num_bytes dev =
     (if FAILED (fst (device_allocator (staging_request num_bytes)))
      then (empty_staging_buffer, dev, [(level_error, ''Could not create staging buffer'')])
      else (\<lparr>staging_resource = Some (snd (device_allocator (staging_request num_bytes))),
              staging_size = num_bytes, staging_mapped = True,
              staging_object_name = ''Staging Buffer '' @ to_string (unat (staging_buffer_idx dev))\<rparr>,
            dev\<lparr>staging_buffer_idx := staging_buffer_idx dev + 1\<rparr>, []))"
  by (simp add: create_staging_buffer_def split: prod.splits)

text \<open>
  C10, as the code has it. If some pooled staging buffer has at least \<open>num_bytes\<close>, the
  call returns the pooled buffer at an index \<open>k\<close> and removes exactly that element from
  the pool; no pooled buffer that fits is smaller, and every buffer that fits and stands
  before \<open>k\<close> in the pool is strictly larger, so \<open>k\<close> is the first of the smallest buffers
  that fit. Otherwise the pool is left alone and the call creates a buffer: when the
  allocation succeeds, a new staging buffer of exactly \<open>num_bytes\<close>; when it fails, the
  empty staging buffer, with an error logged.
\<close>

theorem get_staging_buffer_best_fit:
  "(if \<exists>b\<in>set (staging_buffers dev). num_bytes \<le> staging_size b
    then \<exists>k<length (staging_buffers dev).
           get_staging_buffer device_allocator num_bytes dev =
             (staging_buffers dev ! k,
              dev\<lparr>staging_buffers := take k (staging_buffers dev) @ drop (Suc k) (staging_buffers dev)\<rparr>, [])
           \<and> num_bytes \<le> staging_size (staging_buffers dev ! k)
           \<and> (\<forall>b\<in>set (staging_buffers dev).
                 num_bytes \<le> staging_size b \<longrightarrow> staging_size (staging_buffers dev ! k) \<le> staging_size b)
           \<and> (\<forall>j<k. num_bytes \<le> staging_size (staging_buffers dev ! j) \<longrightarrow>
                 staging_size (staging_buffers dev ! k) < staging_size (staging_buffers dev ! j))
    else get_staging_buffer device_allocator num_bytes dev =
           (if FAILED (fst (device_allocator (staging_request num_bytes)))
            then (empty_staging_buffer, dev, [(level_error, ''Could not create staging buffer'')])
            else (\<lparr>staging_resource = Some (snd (device_allocator (staging_request num_bytes))),
                    staging_size = num_bytes, staging_mapped = True,
                    staging_object_name = ''Staging Buffer '' @ to_string (unat (staging_buffer_idx dev))\<rparr>,
                  dev\<lparr>staging_buffer_idx := staging_buffer_idx dev + 1\<rparr>, [])))"
proof (cases "\<exists>b\<in>set (staging_buffers dev). num_bytes \<le> staging_size b")
  case True
  note hit = find_best_fit_hit [OF True]
  from hit have lt: "find_best_fit (staging_buffers dev) num_bytes < length (staging_buffers dev)" by blast
  show ?thesis
    unfolding if_P [OF True]
    using hit get_staging_buffer_hit [OF lt, of device_allocator] by blast
next
  case False
  note miss = find_best_fit_miss [OF False]
  show ?thesis
    unfolding if_not_P [OF False] get_staging_buffer_miss [OF miss] create_staging_buffer_result ..
qed

text \<open>
  On the pool of sizes 64, 16, 32 a request for 20 bytes takes the buffer of 32 bytes; on
  the pool of sizes 32, 16, 16 a request for 10 bytes takes the first of the two buffers
  of 16 bytes; a request for 100 bytes finds nothing in the pool.
\<close>

theorem get_staging_buffer_best_fit_witness:
  "(\<exists>b\<in>set (staging_buffers (example_device example_pool [])). 20 \<le> staging_size b)
   \<and> get_staging_buffer out_of_memory 20 (example_device example_pool []) =
        (example_pool ! 2, example_device (take 2 example_pool) [], [])
   \<and> (\<exists>b\<in>set (staging_buffers (example_device tie_pool [])). 10 \<le> staging_size b)
   \<and> get_staging_buffer out_of_memory 10 (example_device tie_pool []) =
        (tie_pool ! 1, example_device [tie_pool ! 0, tie_pool ! 2] [], [])
   \<and> staging_resource (tie_pool ! 1) = Some 2
   \<and> \<not> (\<exists>b\<in>set (staging_buffers (example_device example_pool [])). 100 \<le> staging_size b)
   \<and> get_staging_buffer out_of_memory 100 (example_device example_pool []) =
        (empty_staging_buffer, example_device example_pool [], [(level_error, ''Could not create staging buffer'')])"
  using get_staging_buffer_best_fit [of "example_device example_pool []" 20 out_of_memory]
    get_staging_buffer_best_fit [of "example_device tie_pool []" 10 out_of_memory]
    get_staging_buffer_best_fit [of "example_device example_pool []" 100 out_of_memory]
  by (auto simp: example_device_def example_pool_def tie_pool_def out_of_memory_def FAILED_E_OUTOFMEMORY
      less_Suc_eq numeral_3_eq_3 numeral_2_eq_2)

text \<open>
  With an empty pool and an allocator that is out of memory, the buffer returned for 16
  bytes has no resource and does not have 16 bytes.
\<close>

theorem get_staging_buffer_creation_fails_counterexample:
  "staging_resource (fst (get_staging_buffer out_of_memory 16 (example_device [] []))) = None
   \<and> staging_size (fst (get_staging_buffer out_of_memory 16 (example_device [] []))) \<noteq> 16"
  by (simp add: get_staging_buffer_def find_best_fit_def create_staging_buffer_def example_device_def
      out_of_memory_def FAILED_E_OUTOFMEMORY empty_staging_buffer_def)

lemma create_buffer_result:
  "create_buffer device_allocator create_info =
     (if FAILED (fst (device_allocator (buffer_request create_info)))
      then (None, [(level_error, ''Could not create buffer %s'')])
      else (Some \<lparr>buffer_resource = Some (snd (device_allocator (buffer_request create_info))),
                   buffer_mapped = snd (snd (buffer_usage_switch (buffer_usage create_info))),
                   buffer_bytes = buffer_create_size create_info,
                   buffer_object_name = buffer_name create_info\<rparr>, []))"
  by (simp add: create_buffer_def split: prod.splits)

lemma create_image_result:
  "create_image device_allocator create_info =
     (if FAILED (fst (device_allocator (image_request create_info)))
      then (None, snd (image_initial_state create_info) @ [(level_error, ''Could not create image %s'')])
      else (Some \<lparr>image_resource = Some (snd (device_allocator (image_request create_info))),
                   format = image_format create_info,
                   image_object_name = image_name create_info\<rparr>,
            snd (image_initial_state create_info)))"
  by (simp add: create_image_def split: prod.splits)

lemma image_initial_state_no_error:
  "filter (\<lambda>e. fst e = level_error) (snd (image_initial_state create_info)) = []"
  by (simp add: image_initial_state_def split: ImageUsage.splits)

text \<open>
  C9. When the allocation behind \<open>create_buffer\<close> or \<open>create_image\<close> fails, the call
  returns the empty result, never a substitute resource, and logs exactly one error. The
  result is a value: nothing is raised.
\<close>

theorem creation_failure_returns_empty:
  "(FAILED (fst (device_allocator (buffer_request buffer_info))) \<longrightarrow>
      fst (create_buffer device_allocator buffer_info) = None
      \<and> filter (\<lambda>e. fst e = level_error) (snd (create_buffer device_allocator buffer_info))
          = [(level_error, ''Could not create buffer %s'')])
   \<and> (FAILED (fst (device_allocator (image_request image_info))) \<longrightarrow>
      fst (create_image device_allocator image_info) = None
      \<and> filter (\<lambda>e. fst e = level_error) (snd (create_image device_allocator image_info))
          = [(level_error, ''Could not create image %s'')])"
  by (simp add: create_buffer_result create_image_result image_initial_state_no_error)

theorem creation_failure_returns_empty_witness:
  "FAILED (fst (out_of_memory (buffer_request example_buffer_info)))
   \<and> create_buffer out_of_memory example_buffer_info = (None, [(level_error, ''Could not create buffer %s'')])
   \<and> FAILED (fst (out_of_memory (image_request example_image_info)))
   \<and> create_image out_of_memory example_image_info = (None, [(level_error, ''Could not create image %s'')])"
proof -
  have f: "FAILED (fst (out_of_memory args))" for args
    by (simp add: out_of_memory_def FAILED_E_OUTOFMEMORY)
  have b: "snd (create_buffer out_of_memory example_buffer_info) = [(level_error, ''Could not create buffer %s'')]"
    by (simp add: create_buffer_result f)
  have i: "snd (create_image out_of_memory example_image_info) = [(level_error, ''Could not create image %s'')]"
    by (simp add: create_image_result f image_initial_state_def example_image_info_def)
  from creation_failure_returns_empty [of out_of_memory example_buffer_info example_image_info] f b i
  show ?thesis by (simp add: prod_eq_iff)
qed

lemma deref_end_out_of_bounds: "deref_iterator xs (vector_end xs) = Inl OutOfBounds"
  by (simp add: deref_iterator_def vector_end_def)

text \<open>
  C8 asks that the read into the pool of recycled fences is within bounds. Whenever the
  pool is not empty, \<open>get_next_command_list_done_fence\<close> reads through \<open>end()\<close>, one
  position past the last fence.
\<close>

theorem recycled_fence_read_out_of_bounds:
  "command_list_done_fences dev \<noteq> [] \<Longrightarrow>
   get_next_command_list_done_fence CreateFence dev = Inl OutOfBounds"
  by (simp add: get_next_command_list_done_fence_def deref_end_out_of_bounds)

theorem recycled_fence_read_out_of_bounds_witness:
  "command_list_done_fences (example_device [] [Some 5]) \<noteq> []
   \<and> get_next_command_list_done_fence (S_OK, 6) (example_device [] [Some 5]) = Inl OutOfBounds"
  using recycled_fence_read_out_of_bounds [of "example_device [] [Some 5]" "(S_OK, 6)"]
  by (simp add: example_device_def)

section \<open>Properties of the mesh data store\<close>



lemma unat_of_nat32: "n < 4294967296 \<Longrightarrow> unat (of_nat n :: uint32_t) = n"
  by (simp add: unat_of_nat)

lemma add_mesh_commands:
  "snd (snd (add_mesh vs is cmds s)) =
     cmds @ [CopyBufferRegion (vertex_buffer s) (next_free_vertex_byte s) (VertexData vs)
               (of_nat (length vs * sizeof_StandardVertex)),
             CopyBufferRegion (index_buffer s) (of_nat (unat (next_index_offset s) * sizeof_Uint32))
               (IndexData (map (\<lambda>idx. idx + next_vertex_offset s) is))
               (of_nat (length is * sizeof_Uint32))]"
  by (simp add: add_mesh_def upload_data_with_staging_buffer_def Let_def)

lemma add_mesh_next_vertex_offset:
  "next_vertex_offset (fst (snd (add_mesh vs is cmds s))) = next_vertex_offset s + of_nat (length vs)"
  by (simp add: add_mesh_def Let_def)

lemma add_meshes_next_vertex_offset:
  "next_vertex_offset (fst (snd (add_meshes ms cmds s))) = next_vertex_offset s + of_nat (total_vertices ms)"
proof (induction ms arbitrary: cmds s)
  case Nil
  then show ?case by (simp add: total_vertices_def)
next
  case (Cons m ms)
  obtain mesh s1 c1 where a: "add_mesh (fst m) (snd m) cmds s = (mesh, s1, c1)"
    by (cases "add_mesh (fst m) (snd m) cmds s") auto
  obtain meshes s2 c2 where b: "add_meshes ms c1 s1 = (meshes, s2, c2)"
    by (cases "add_meshes ms c1 s1") auto
  from a have s1: "next_vertex_offset s1 = next_vertex_offset s + of_nat (length (fst m))"
    using add_mesh_next_vertex_offset [of "fst m" "snd m" cmds s] by simp
  from Cons.IH [of c1 s1] b have "next_vertex_offset s2 = next_vertex_offset s1 + of_nat (total_vertices ms)"
    by simp
  with s1 a b show ?case
    by (simp add: total_vertices_def)
qed

lemma add_mesh_index_buffer:
  "index_buffer (fst (snd (add_mesh vs is cmds s))) = index_buffer s"
  by (simp add: add_mesh_def Let_def)

lemma add_meshes_index_buffer:
  "index_buffer (fst (snd (add_meshes ms cmds s))) = index_buffer s"
proof (induction ms arbitrary: cmds s)
  case Nil
  then show ?case by simp
next
  case (Cons m ms)
  obtain mesh s1 c1 where a: "add_mesh (fst m) (snd m) cmds s = (mesh, s1, c1)"
    by (cases "add_mesh (fst m) (snd m) cmds s") auto
  obtain meshes s2 c2 where b: "add_meshes ms c1 s1 = (meshes, s2, c2)"
    by (cases "add_meshes ms c1 s1") auto
  from a have "index_buffer s1 = index_buffer s"
    using add_mesh_index_buffer [of "fst m" "snd m" cmds s] by simp
  moreover from Cons.IH [of c1 s1] b have "index_buffer s2 = index_buffer s1" by simp
  ultimately show ?case using a b by simp
qed

text \<open>
  C3. After any sequence of \<open>add_mesh\<close> calls on a new store, the next call copies into
  the index buffer the caller's indices, each plus the number of vertices of all meshes
  added before, in the 32-bit arithmetic of the index type; the words written are the first
  \<open>index_data_size / 4\<close> of them, all of them for fewer than \<open>2^30\<close> indices. Where
  the sum of an index and that vertex count is below \<open>2^32\<close>, the 32-bit sum is the sum.
  The example with it: indices 0, 1, 2 after a mesh of 10 vertices are stored as 10, 11, 12.
\<close>

theorem add_mesh_offsets_indices:
  "last (snd (snd (add_mesh vertices indices commands
          (fst (snd (add_meshes earlier commands0 (new_MeshDataStore vb ib))))))) =
     CopyBufferRegion ib
       (of_nat (unat (next_index_offset (fst (snd (add_meshes earlier commands0 (new_MeshDataStore vb ib)))))
                * sizeof_Uint32))
       (IndexData (map (\<lambda>idx. idx + of_nat (total_vertices earlier)) indices))
       (of_nat (length indices * sizeof_Uint32))
   \<and> written_indices (last (snd (snd (add_mesh vertices indices commands
          (fst (snd (add_meshes earlier commands0 (new_MeshDataStore vb ib)))))))) =
     take (unat (of_nat (length indices * sizeof_Uint32) :: uint32_t) div sizeof_Uint32)
       (map (\<lambda>idx. idx + of_nat (total_vertices earlier)) indices)
   \<and> (length indices < 2 ^ 30 \<longrightarrow>
        written_indices (last (snd (snd (add_mesh vertices indices commands
          (fst (snd (add_meshes earlier commands0 (new_MeshDataStore vb ib)))))))) =
        map (\<lambda>idx. idx + of_nat (total_vertices earlier)) indices)
   \<and> (\<forall>k<length indices. unat (indices ! k) + total_vertices earlier < 2 ^ 32 \<longrightarrow>
        unat (map (\<lambda>idx. idx + of_nat (total_vertices earlier)) indices ! k) =
          unat (indices ! k) + total_vertices earlier)"
proof -
  let ?s = "fst (snd (add_meshes earlier commands0 (new_MeshDataStore vb ib)))"
  have nvo: "next_vertex_offset ?s = of_nat (total_vertices earlier)"
    using add_meshes_next_vertex_offset [of earlier commands0 "new_MeshDataStore vb ib"]
    by (simp add: new_MeshDataStore_def)
  have ib: "index_buffer ?s = ib"
    using add_meshes_index_buffer [of earlier commands0 "new_MeshDataStore vb ib"]
    by (simp add: new_MeshDataStore_def)
  have full: "unat (of_nat (length indices * sizeof_Uint32) :: uint32_t) div sizeof_Uint32 = length indices"
    if "length indices < 2 ^ 30"
  proof -
    from that have "length indices * 4 < 2 ^ 32" by simp
    then have "unat (of_nat (length indices * 4) :: uint32_t) = length indices * 4"
      by (intro unat_of_nat32) simp
    then show ?thesis by (simp add: sizeof_Uint32_def del: of_nat_mult)
  qed
  have exact: "unat (map (\<lambda>idx. idx + of_nat (total_vertices earlier)) indices ! k) =
                 unat (indices ! k) + total_vertices earlier"
    if k: "k < length indices" and fit: "unat (indices ! k) + total_vertices earlier < 2 ^ 32" for k
  proof -
    let ?n = "total_vertices earlier"
    from fit have "?n < 4294967296" by simp
    then have n: "unat (of_nat ?n :: uint32_t) = ?n" by (rule unat_of_nat32)
    from fit have "unat (indices ! k) + unat (of_nat ?n :: uint32_t) < 2 ^ LENGTH(32)"
      unfolding n by simp
    then have "unat (indices ! k + of_nat ?n) = unat (indices ! k) + unat (of_nat ?n :: uint32_t)"
      by (rule unat_add_lem [THEN iffD1])
    with k show ?thesis unfolding n by simp
  qed
  show ?thesis
    using exact by (simp add: add_mesh_commands nvo ib full del: of_nat_mult)
qed

theorem add_mesh_offsets_indices_witness:
  "length [0, 1, 2 :: uint32_t] < 2 ^ 30
   \<and> written_indices (last (snd (snd (add_mesh (replicate 3 example_vertex) [0, 1, 2] []
          (fst (snd (add_meshes [(replicate 10 example_vertex, [0, 1, 2])] [] (new_MeshDataStore 7 8)))))))) =
       [10, 11, 12]"
  using add_mesh_offsets_indices [of "replicate 3 example_vertex" "[0, 1, 2]" "[]"
      "[(replicate 10 example_vertex, [0, 1, 2])]" "[]" 7 8]
  by (simp add: total_vertices_def sizeof_Uint32_def)

lemma add_mesh_step:
  assumes fit: "fits_32_bits (m # ms) s"
    and a: "add_mesh (fst m) (snd m) cmds s = (mesh, s1, c1)"
  shows "unat (first_vertex mesh) = cursor_vertex s"
    and "unat (num_vertices mesh) = length (fst m)"
    and "unat (first_index mesh) = unat (next_index_offset s)"
    and "unat (num_indices mesh) = length (snd m)"
    and "cursor_vertex s1 = cursor_vertex s + length (fst m)"
    and "unat (next_index_offset s1) = unat (next_index_offset s) + length (snd m)"
    and "fits_32_bits ms s1"
proof -
  let ?n = "length (fst m)" and ?k = "length (snd m)"
  let ?b = "unat (next_free_vertex_byte s)" and ?i = "unat (next_index_offset s)"
  from fit have v: "?b + 40 * ?n + 40 * total_vertices ms < 4294967296"
    and i: "?i + ?k + total_indices ms < 4294967296"
    by (simp_all add: fits_32_bits_def total_vertices_def total_indices_def sizeof_StandardVertex_def algebra_simps)
  have n32: "?n * 40 < 4294967296" and n32': "?n < 4294967296" and k32: "?k < 4294967296" and b32: "?b div 40 < 4294967296"
    using v i by simp_all
  have un: "unat (of_nat (?n * 40) :: uint32_t) = ?n * 40"
    using n32 by (intro unat_of_nat32)
  have uk: "unat (of_nat ?k :: uint32_t) = ?k"
    using k32 by (intro unat_of_nat32)
  have mesh: "mesh = \<lparr>first_vertex = of_nat (?b div 40), num_vertices = of_nat ?n,
                     first_index = next_index_offset s, num_indices = of_nat ?k\<rparr>"
    using a by (simp add: add_mesh_def Let_def sizeof_StandardVertex_def del: of_nat_mult)
  have s1b: "next_free_vertex_byte s1 = next_free_vertex_byte s + of_nat (?n * 40)"
    and s1i: "next_index_offset s1 = next_index_offset s + of_nat ?k"
    using a by (auto simp: add_mesh_def Let_def sizeof_StandardVertex_def simp del: of_nat_mult)
  have "unat (next_free_vertex_byte s) + unat (of_nat (?n * 40) :: uint32_t) < 2 ^ LENGTH(32)"
    unfolding un using v by simp
  then have "unat (next_free_vertex_byte s + of_nat (?n * 40)) = ?b + unat (of_nat (?n * 40) :: uint32_t)"
    by (rule unat_add_lem [THEN iffD1])
  then have ub: "unat (next_free_vertex_byte s1) = ?b + ?n * 40"
    unfolding s1b un .
  have "unat (next_index_offset s) + unat (of_nat ?k :: uint32_t) < 2 ^ LENGTH(32)"
    unfolding uk using i by simp
  then have "unat (next_index_offset s + of_nat ?k) = ?i + unat (of_nat ?k :: uint32_t)"
    by (rule unat_add_lem [THEN iffD1])
  then have ui: "unat (next_index_offset s1) = ?i + ?k"
    unfolding s1i uk .
  show "unat (first_vertex mesh) = cursor_vertex s"
    using b32 by (simp add: mesh cursor_vertex_def sizeof_StandardVertex_def unat_of_nat32)
  show "unat (num_vertices mesh) = ?n"
    using n32' by (simp add: mesh unat_of_nat32)
  show "unat (first_index mesh) = ?i" by (simp add: mesh)
  show "unat (num_indices mesh) = ?k"
    using k32 by (simp add: mesh unat_of_nat32)
  show "cursor_vertex s1 = cursor_vertex s + ?n"
    by (simp add: cursor_vertex_def ub sizeof_StandardVertex_def)
  show "unat (next_index_offset s1) = ?i + ?k" by (rule ui)
  show "fits_32_bits ms s1"
    using v i by (simp add: fits_32_bits_def ub ui sizeof_StandardVertex_def algebra_simps)
qed

lemma total_take_Suc:
  assumes "i < length ms"
  shows "total_vertices (take (Suc i) ms) = total_vertices (take i ms) + length (fst (ms ! i))"
    and "total_indices (take (Suc i) ms) = total_indices (take i ms) + length (snd (ms ! i))"
  using assms by (simp_all add: total_vertices_def total_indices_def take_Suc_conv_app_nth)

lemma total_take_mono:
  assumes "i \<le> j"
  shows "total_vertices (take i ms) \<le> total_vertices (take j ms)"
    and "total_indices (take i ms) \<le> total_indices (take j ms)"
proof -
  from assms have "take j ms = take i ms @ take (j - i) (drop i ms)"
    by (metis le_add_diff_inverse take_add)
  then show "total_vertices (take i ms) \<le> total_vertices (take j ms)"
    and "total_indices (take i ms) \<le> total_indices (take j ms)"
    by (simp_all add: total_vertices_def total_indices_def)
qed

lemma add_meshes_exact:
  assumes "fits_32_bits ms s" and "add_meshes ms cmds s = (meshes, s', cmds')"
  shows "length meshes = length ms
       \<and> (\<forall>j<length ms.
            unat (first_vertex (meshes ! j)) = cursor_vertex s + total_vertices (take j ms)
          \<and> unat (num_vertices (meshes ! j)) = length (fst (ms ! j))
          \<and> unat (first_index (meshes ! j)) = unat (next_index_offset s) + total_indices (take j ms)
          \<and> unat (num_indices (meshes ! j)) = length (snd (ms ! j)))"
  using assms
proof (induction ms arbitrary: s cmds meshes s' cmds')
  case Nil
  then show ?case by simp
next
  case (Cons m ms)
  obtain mesh s1 c1 where a: "add_mesh (fst m) (snd m) cmds s = (mesh, s1, c1)"
    by (cases "add_mesh (fst m) (snd m) cmds s") auto
  obtain rest s2 c2 where b: "add_meshes ms c1 s1 = (rest, s2, c2)"
    by (cases "add_meshes ms c1 s1") auto
  from Cons.prems(2) a b have meshes: "meshes = mesh # rest" by simp
  note st = add_mesh_step [OF Cons.prems(1) a]
  from Cons.IH [OF st(7) b]
  have len: "length rest = length ms"
    and ih: "\<And>j. j < length ms \<Longrightarrow>
            unat (first_vertex (rest ! j)) = cursor_vertex s1 + total_vertices (take j ms)
          \<and> unat (num_vertices (rest ! j)) = length (fst (ms ! j))
          \<and> unat (first_index (rest ! j)) = unat (next_index_offset s1) + total_indices (take j ms)
          \<and> unat (num_indices (rest ! j)) = length (snd (ms ! j))"
    by blast+
  have "unat (first_vertex (meshes ! j)) = cursor_vertex s + total_vertices (take j (m # ms))
          \<and> unat (num_vertices (meshes ! j)) = length (fst ((m # ms) ! j))
          \<and> unat (first_index (meshes ! j)) = unat (next_index_offset s) + total_indices (take j (m # ms))
          \<and> unat (num_indices (meshes ! j)) = length (snd ((m # ms) ! j))"
    if "j < length (m # ms)" for j
  proof (cases j)
    case 0
    then show ?thesis
      using st(1-4) by (simp add: meshes total_vertices_def total_indices_def)
  next
    case (Suc k)
    with that have "k < length ms" by simp
    from ih [OF this] show ?thesis
      unfolding Suc using st(5,6) by (simp add: meshes total_vertices_def total_indices_def)
  qed
  then show ?case
    using len by (simp add: meshes)
qed

lemma mesh_upload_session_meshes:
  "fst (mesh_upload_session ms commands s) = fst (add_meshes ms (begin_adding_meshes commands s) s)"
  by (simp add: mesh_upload_session_def split: prod.splits)

text \<open>
  C4, as the code has it. Let the meshes \<open>ms\<close> (vertices and indices of each) be passed to
  \<open>add_mesh\<close> in this order between one \<open>begin_adding_meshes\<close> and \<open>end_adding_meshes\<close>,
  while the data fits the 32-bit cursors. Then one Mesh is returned for each; the Mesh of
  the \<open>j\<close>-th call starts at the vertex cursor plus the number of vertices of the calls
  before it and counts the vertices it was given, and likewise for the indices. An earlier
  and a later Mesh have disjoint vertex ranges and disjoint index ranges, \<open>first_vertex\<close>
  and \<open>first_index\<close> do not decrease, and each increases strictly after a mesh that was
  given at least one vertex, respectively one index.
\<close>

theorem add_mesh_ranges_ordered:
  assumes "fits_32_bits ms s"
  shows "length (fst (mesh_upload_session ms commands s)) = length ms
       \<and> (\<forall>j<length ms.
            unat (first_vertex (fst (mesh_upload_session ms commands s) ! j)) =
              cursor_vertex s + total_vertices (take j ms)
          \<and> unat (num_vertices (fst (mesh_upload_session ms commands s) ! j)) = length (fst (ms ! j))
          \<and> unat (first_index (fst (mesh_upload_session ms commands s) ! j)) =
              unat (next_index_offset s) + total_indices (take j ms)
          \<and> unat (num_indices (fst (mesh_upload_session ms commands s) ! j)) = length (snd (ms ! j)))
       \<and> (\<forall>j<length ms. \<forall>i<j.
            vertex_range (fst (mesh_upload_session ms commands s) ! i)
              \<inter> vertex_range (fst (mesh_upload_session ms commands s) ! j) = {}
          \<and> index_range (fst (mesh_upload_session ms commands s) ! i)
              \<inter> index_range (fst (mesh_upload_session ms commands s) ! j) = {}
          \<and> first_vertex (fst (mesh_upload_session ms commands s) ! i)
              \<le> first_vertex (fst (mesh_upload_session ms commands s) ! j)
          \<and> first_index (fst (mesh_upload_session ms commands s) ! i)
              \<le> first_index (fst (mesh_upload_session ms commands s) ! j)
          \<and> (fst (ms ! i) \<noteq> [] \<longrightarrow>
               first_vertex (fst (mesh_upload_session ms commands s) ! i)
                 < first_vertex (fst (mesh_upload_session ms commands s) ! j))
          \<and> (snd (ms ! i) \<noteq> [] \<longrightarrow>
               first_index (fst (mesh_upload_session ms commands s) ! i)
                 < first_index (fst (mesh_upload_session ms commands s) ! j)))"
proof -
  let ?meshes = "fst (mesh_upload_session ms commands s)"
  obtain meshes s' c' where am: "add_meshes ms (begin_adding_meshes commands s) s = (meshes, s', c')"
    by (cases "add_meshes ms (begin_adding_meshes commands s) s") auto
  then have eq: "?meshes = meshes" by (simp add: mesh_upload_session_meshes)
  note ex = add_meshes_exact [OF assms am]
  from ex have len: "length meshes = length ms" by blast
  from ex have fv: "unat (first_vertex (meshes ! j)) = cursor_vertex s + total_vertices (take j ms)"
    and nv: "unat (num_vertices (meshes ! j)) = length (fst (ms ! j))"
    and fi: "unat (first_index (meshes ! j)) = unat (next_index_offset s) + total_indices (take j ms)"
    and ni: "unat (num_indices (meshes ! j)) = length (snd (ms ! j))"
    if "j < length ms" for j
    using that by blast+
  have pair: "vertex_range (meshes ! i) \<inter> vertex_range (meshes ! j) = {}
          \<and> index_range (meshes ! i) \<inter> index_range (meshes ! j) = {}
          \<and> first_vertex (meshes ! i) \<le> first_vertex (meshes ! j)
          \<and> first_index (meshes ! i) \<le> first_index (meshes ! j)
          \<and> (fst (ms ! i) \<noteq> [] \<longrightarrow> first_vertex (meshes ! i) < first_vertex (meshes ! j))
          \<and> (snd (ms ! i) \<noteq> [] \<longrightarrow> first_index (meshes ! i) < first_index (meshes ! j))"
    if j: "j < length ms" and i: "i < j" for i j
  proof -
    from i j have il: "i < length ms" and sij: "Suc i \<le> j" by simp_all
    have v: "total_vertices (take i ms) + length (fst (ms ! i)) \<le> total_vertices (take j ms)"
      using total_take_mono(1) [OF sij, of ms] total_take_Suc(1) [OF il] by simp
    have x: "total_indices (take i ms) + length (snd (ms ! i)) \<le> total_indices (take j ms)"
      using total_take_mono(2) [OF sij, of ms] total_take_Suc(2) [OF il] by simp
    have pv: "unat (first_vertex (meshes ! i)) + unat (num_vertices (meshes ! i)) \<le> unat (first_vertex (meshes ! j))"
      using v by (simp add: fv [OF il] nv [OF il] fv [OF j])
    have pi: "unat (first_index (meshes ! i)) + unat (num_indices (meshes ! i)) \<le> unat (first_index (meshes ! j))"
      using x by (simp add: fi [OF il] ni [OF il] fi [OF j])
    have sv: "unat (first_vertex (meshes ! i)) < unat (first_vertex (meshes ! j))" if "fst (ms ! i) \<noteq> []"
      using pv that by (cases "fst (ms ! i)") (simp_all add: nv [OF il])
    have si: "unat (first_index (meshes ! i)) < unat (first_index (meshes ! j))" if "snd (ms ! i) \<noteq> []"
      using pi that by (cases "snd (ms ! i)") (simp_all add: ni [OF il])
    have d1: "vertex_range (meshes ! i) \<inter> vertex_range (meshes ! j) = {}"
      using pv by (auto simp: vertex_range_def)
    have d2: "index_range (meshes ! i) \<inter> index_range (meshes ! j) = {}"
      using pi by (auto simp: index_range_def)
    have l1: "first_vertex (meshes ! i) \<le> first_vertex (meshes ! j)"
      using pv by (simp add: word_le_nat_alt)
    have l2: "first_index (meshes ! i) \<le> first_index (meshes ! j)"
      using pi by (simp add: word_le_nat_alt)
    from d1 d2 l1 l2 sv si show ?thesis
      by (simp add: word_less_nat_alt)
  qed
  show ?thesis
    unfolding eq using len fv nv fi ni pair by blast
qed

text \<open>
  A mesh of ten vertices and three indices, then a mesh of three vertices and three
  indices, on a new store: the second Mesh starts at vertex 10 and index 3.
\<close>

theorem add_mesh_ranges_ordered_witness:
  "fits_32_bits example_meshes example_store
   \<and> (1 :: nat) < length example_meshes
   \<and> fst (example_meshes ! 0) \<noteq> [] \<and> snd (example_meshes ! 0) \<noteq> []
   \<and> length (fst (mesh_upload_session example_meshes [] example_store)) = 2
   \<and> unat (first_vertex (fst (mesh_upload_session example_meshes [] example_store) ! 1)) = 10
   \<and> unat (num_vertices (fst (mesh_upload_session example_meshes [] example_store) ! 1)) = 3
   \<and> unat (first_index (fst (mesh_upload_session example_meshes [] example_store) ! 1)) = 3
   \<and> unat (num_indices (fst (mesh_upload_session example_meshes [] example_store) ! 1)) = 3
   \<and> vertex_range (fst (mesh_upload_session example_meshes [] example_store) ! 0)
       \<inter> vertex_range (fst (mesh_upload_session example_meshes [] example_store) ! 1) = {}
   \<and> index_range (fst (mesh_upload_session example_meshes [] example_store) ! 0)
       \<inter> index_range (fst (mesh_upload_session example_meshes [] example_store) ! 1) = {}
   \<and> first_vertex (fst (mesh_upload_session example_meshes [] example_store) ! 0)
       < first_vertex (fst (mesh_upload_session example_meshes [] example_store) ! 1)
   \<and> first_index (fst (mesh_upload_session example_meshes [] example_store) ! 0)
       < first_index (fst (mesh_upload_session example_meshes [] example_store) ! 1)"
proof -
  have f: "fits_32_bits example_meshes example_store"
    by (simp add: fits_32_bits_def total_vertices_def total_indices_def new_MeshDataStore_def
        sizeof_StandardVertex_def example_meshes_def example_store_def)
  have l: "(1 :: nat) < length example_meshes" and z: "(0 :: nat) < 1"
    and ne: "fst (example_meshes ! 0) \<noteq> []" "snd (example_meshes ! 0) \<noteq> []"
    by (simp_all add: example_meshes_def)
  have c: "cursor_vertex example_store = 0" "unat (next_index_offset example_store) = 0"
    and t: "total_vertices (take (Suc 0) example_meshes) = 10"
      "total_indices (take (Suc 0) example_meshes) = 3"
      "length (fst (example_meshes ! Suc 0)) = 3" "length (snd (example_meshes ! Suc 0)) = 3"
      "length example_meshes = 2"
    by (simp_all add: cursor_vertex_def example_store_def new_MeshDataStore_def example_meshes_def
        total_vertices_def total_indices_def)
  note th = add_mesh_ranges_ordered [OF f, of "[]"]
  from th have "length (fst (mesh_upload_session example_meshes [] example_store)) = 2"
    by (simp add: t)
  moreover from th [THEN conjunct2, THEN conjunct1, rule_format, OF l]
  have "unat (first_vertex (fst (mesh_upload_session example_meshes [] example_store) ! 1)) = 10
      \<and> unat (num_vertices (fst (mesh_upload_session example_meshes [] example_store) ! 1)) = 3
      \<and> unat (first_index (fst (mesh_upload_session example_meshes [] example_store) ! 1)) = 3
      \<and> unat (num_indices (fst (mesh_upload_session example_meshes [] example_store) ! 1)) = 3"
    by (simp add: c t)
  moreover note th [THEN conjunct2, THEN conjunct2, rule_format, OF l z]
  ultimately show ?thesis
    using f l ne by simp
qed

text \<open>
  A mesh of three vertices without indices, then an indexed mesh: both get
  \<open>first_index = 0\<close>, so the index offset does not increase strictly.
\<close>

theorem add_mesh_first_index_repeats_counterexample:
  "map first_index (fst (mesh_upload_session
      [(replicate 3 example_vertex, []), (replicate 3 example_vertex, [0, 1, 2])] [] example_store))
   = [0, 0]"
  by (simp add: mesh_upload_session_meshes add_mesh_def new_MeshDataStore_def Let_def example_store_def)

section \<open>Properties of the bind group builder\<close>


lemma save_descriptor_tables_ok:
  assumes "list_all (\<lambda>e. unat (fst e) < 64) ts" and "length ps = 64"
  shows "\<exists>ps'. save_descriptor_tables ts ps = Inr ps' \<and> length ps' = 64
           \<and> (\<forall>i. i \<notin> set (map (\<lambda>t. unat (fst t)) ts) \<longrightarrow> ps' ! i = ps ! i)"
  using assms
proof (induction ts arbitrary: ps)
  case Nil
  then show ?case by simp
next
  case (Cons e ts)
  let ?ps1 = "ps[unat (fst e) := (ps ! unat (fst e))\<lparr>param_type := RootParameterType_DescriptorTable,
                                                       table_handle := snd e\<rparr>]"
  from Cons.prems have e: "unat (fst e) < 64" and ts: "list_all (\<lambda>e. unat (fst e) < 64) ts" by simp_all
  have len: "length ?ps1 = 64" using Cons.prems(2) by simp
  from Cons.IH [OF ts len] obtain ps' where
    r: "save_descriptor_tables ts ?ps1 = Inr ps'" and l: "length ps' = 64"
    and k: "\<And>i. i \<notin> set (map (\<lambda>t. unat (fst t)) ts) \<Longrightarrow> ps' ! i = ?ps1 ! i" by blast
  have "save_descriptor_tables (e # ts) ps = Inr ps'"
    using e r by (simp add: ENSURE_def Let_def)
  moreover have "ps' ! i = ps ! i" if "i \<notin> set (map (\<lambda>t. unat (fst t)) (e # ts))" for i
  proof -
    from that have "i \<noteq> unat (fst e)" and "i \<notin> set (map (\<lambda>t. unat (fst t)) ts)" by auto
    with k [of i] show ?thesis by simp
  qed
  ultimately show ?case using l by blast
qed

lemma payload_unbound:
  "unbound b name \<Longrightarrow>
   root_descriptor_payload g b name =
     Inr (None, [(level_warn, ''No resources bound to root descriptor '' @ name)])"
  by (simp add: unbound_def root_descriptor_payload_def)

lemma payload_usably_bound:
  "usably_bound b name \<Longrightarrow> \<exists>a. root_descriptor_payload g b name = Inr (Some a, [])"
  by (auto simp: usably_bound_def root_descriptor_payload_def ENSURE_def
      split: option.splits bound_entry.splits)

lemma usably_bound_not_unbound: "usably_bound b name \<Longrightarrow> \<not> unbound b name"
  by (auto simp: usably_bound_def unbound_def split: option.splits)

lemma save_root_descriptors_ok:
  assumes "length ps = 64"
    and "list_all (\<lambda>e. unat (fst (snd e)) < 32) es"
    and "distinct (map (\<lambda>e. unat (fst (snd e))) es)"
    and "\<forall>e\<in>set es. param_type (ps ! unat (fst (snd e))) = RootParameterType_Empty"
    and "\<forall>e\<in>set es. unbound b (fst e) \<or> usably_bound b (fst e)"
  shows "\<exists>ps'. save_root_descriptors g b es ps lg =
           Inr (ps', lg @ map no_resources_warning (filter (unbound b) (map fst es)))
         \<and> length ps' = 64"
  using assms
proof (induction es arbitrary: ps lg)
  case Nil
  then show ?case by simp
next
  case (Cons e es)
  let ?idx = "unat (fst (snd e))"
  let ?ps1 = "ps[?idx := (ps ! ?idx)\<lparr>param_type := RootParameterType_Descriptor,
                                      descriptor_type := snd (snd e)\<rparr>]"
  from Cons.prems have idx: "?idx < 32" and empty: "param_type (ps ! ?idx) = RootParameterType_Empty"
    and bound: "unbound b (fst e) \<or> usably_bound b (fst e)" by simp_all
  have rest_prems: "list_all (\<lambda>e. unat (fst (snd e)) < 32) es"
    "distinct (map (\<lambda>e. unat (fst (snd e))) es)"
    "\<forall>e\<in>set es. unbound b (fst e) \<or> usably_bound b (fst e)"
    using Cons.prems by simp_all
  have notin: "?idx \<notin> (\<lambda>e. unat (fst (snd e))) ` set es"
    using Cons.prems(3) by simp
  have other: "unat (fst (snd x)) \<noteq> ?idx" if "x \<in> set es" for x
  proof
    assume "unat (fst (snd x)) = ?idx"
    then have "?idx \<in> (\<lambda>e. unat (fst (snd e))) ` set es"
      using that by (metis imageI)
    with notin show False by contradiction
  qed
  have still_empty: "\<forall>x\<in>set es. param_type (qs ! unat (fst (snd x))) = RootParameterType_Empty"
    if "\<And>i. i \<noteq> ?idx \<Longrightarrow> qs ! i = ps ! i" for qs
    using Cons.prems(4) other that by simp
  from bound show ?case
  proof
    assume u: "unbound b (fst e)"
    have len: "length ?ps1 = 64" using Cons.prems(1) by simp
    have "\<forall>x\<in>set es. param_type (?ps1 ! unat (fst (snd x))) = RootParameterType_Empty"
      by (rule still_empty) simp
    from Cons.IH [OF len rest_prems(1,2) this rest_prems(3), of "lg @ [no_resources_warning (fst e)]"]
    obtain ps' where r: "save_root_descriptors g b es ?ps1 (lg @ [no_resources_warning (fst e)]) =
        Inr (ps', (lg @ [no_resources_warning (fst e)]) @ map no_resources_warning (filter (unbound b) (map fst es)))"
      and l: "length ps' = 64" by blast
    have "save_root_descriptors g b (e # es) ps lg =
            save_root_descriptors g b es ?ps1 (lg @ [no_resources_warning (fst e)])"
      using idx empty payload_unbound [OF u, of g]
      by (simp add: ENSURE_def Let_def no_resources_warning_def)
    with r l u show ?thesis by simp
  next
    assume ub: "usably_bound b (fst e)"
    from payload_usably_bound [OF ub, of g] obtain a where
      p: "root_descriptor_payload g b (fst e) = Inr (Some a, [])" by blast
    let ?ps2 = "?ps1[?idx := (?ps1 ! ?idx)\<lparr>descriptor_address := a\<rparr>]"
    have len: "length ?ps2 = 64" using Cons.prems(1) by simp
    have "\<forall>x\<in>set es. param_type (?ps2 ! unat (fst (snd x))) = RootParameterType_Empty"
      by (rule still_empty) simp
    from Cons.IH [OF len rest_prems(1,2) this rest_prems(3), of lg]
    obtain ps' where r: "save_root_descriptors g b es ?ps2 lg =
        Inr (ps', lg @ map no_resources_warning (filter (unbound b) (map fst es)))"
      and l: "length ps' = 64" by blast
    have "save_root_descriptors g b (e # es) ps lg = save_root_descriptors g b es ?ps2 lg"
      using idx empty p by (simp add: ENSURE_def Let_def)
    with r l usably_bound_not_unbound [OF ub] show ?thesis by simp
  qed
qed

lemma filter_single:
  assumes "distinct xs" and "x \<in> set xs" and "P x" and "\<forall>y\<in>set xs. y \<noteq> x \<longrightarrow> \<not> P y"
  shows "filter P xs = [x]"
  using assms
proof (induction xs)
  case Nil
  then show ?case by simp
next
  case (Cons y ys)
  show ?case
  proof (cases "y = x")
    case True
    with Cons.prems have "\<forall>z\<in>set ys. \<not> P z" by auto
    then have "filter P ys = []" by (simp add: filter_empty_conv)
    with True Cons.prems(3) show ?thesis by simp
  next
    case False
    with Cons.prems have "\<not> P y" "x \<in> set ys" "distinct ys" "\<forall>z\<in>set ys. z \<noteq> x \<longrightarrow> \<not> P z" by auto
    with Cons.IH Cons.prems(3) show ?thesis by simp
  qed
qed

text \<open>
  C7. A builder whose declarations pass the assertions of \<open>build\<close> (table indices below
  64, root descriptor indices below 32, no index declared twice), with one declared root
  descriptor that has nothing bound and every other declared root descriptor bound to a
  usable resource: \<open>build\<close> returns a bind group, and the log is exactly one warning,
  the one that names the unbound slot.
\<close>

theorem build_with_one_unbound_slot:
  assumes valid: "valid_declarations b"
    and declared: "(name, idx, type) \<in> set (root_descriptor_descriptions b)"
    and nothing_bound: "unbound b name"
    and others_bound: "\<forall>e\<in>set (root_descriptor_descriptions b). fst e \<noteq> name \<longrightarrow> usably_bound b (fst e)"
  shows "\<exists>group. build GetGPUVirtualAddress b =
           Inr (group, [(level_warn, ''No resources bound to root descriptor '' @ name)])
         \<and> length (root_parameters group) = 64"
proof -
  let ?es = "root_descriptor_descriptions b"
  from valid have tables: "list_all (\<lambda>e. unat (fst e) < 64) (descriptor_table_handles b)"
    and small: "list_all (\<lambda>e. unat (fst (snd e)) < 32) ?es"
    and names: "distinct (map fst ?es)"
    and indices: "distinct (map (\<lambda>e. unat (fst (snd e))) ?es)"
    and apart: "list_all (\<lambda>e. unat (fst (snd e)) \<notin> set (map (\<lambda>t. unat (fst t)) (descriptor_table_handles b))) ?es"
    by (simp_all add: valid_declarations_def)
  from save_descriptor_tables_ok [OF tables, of "replicate 64 empty_RootParameter"]
  obtain ps where t: "save_descriptor_tables (descriptor_table_handles b) (replicate 64 empty_RootParameter) = Inr ps"
    and len: "length ps = 64"
    and keep: "\<And>i. i \<notin> set (map (\<lambda>t. unat (fst t)) (descriptor_table_handles b))
                 \<Longrightarrow> ps ! i = replicate 64 empty_RootParameter ! i"
    by auto
  have empty: "\<forall>e\<in>set ?es. param_type (ps ! unat (fst (snd e))) = RootParameterType_Empty"
  proof
    fix e assume e: "e \<in> set ?es"
    with small apart have "unat (fst (snd e)) < 32"
      and "unat (fst (snd e)) \<notin> set (map (\<lambda>t. unat (fst t)) (descriptor_table_handles b))"
      by (auto simp: list_all_iff)
    with keep [of "unat (fst (snd e))"] show "param_type (ps ! unat (fst (snd e))) = RootParameterType_Empty"
      by (simp add: empty_RootParameter_def)
  qed
  have either: "\<forall>e\<in>set ?es. unbound b (fst e) \<or> usably_bound b (fst e)"
    using others_bound nothing_bound by auto
  from save_root_descriptors_ok [OF len small indices empty either, of GetGPUVirtualAddress "[]"]
  obtain ps' where r: "save_root_descriptors GetGPUVirtualAddress b ?es ps [] =
        Inr (ps', map no_resources_warning (filter (unbound b) (map fst ?es)))"
    and len': "length ps' = 64" by auto
  have "name \<in> set (map fst ?es)" using declared by force
  moreover have "\<forall>y\<in>set (map fst ?es). y \<noteq> name \<longrightarrow> \<not> unbound b y"
    using others_bound usably_bound_not_unbound by auto
  ultimately have "filter (unbound b) (map fst ?es) = [name]"
    using names nothing_bound by (intro filter_single) auto
  with r t len' show ?thesis
    by (simp add: build_def no_resources_warning_def)
qed

lemma example_bound_builder_eq:
  "example_bound_builder =
     \<lparr>root_descriptor_descriptions =
        [(''camera'', 0, RootDescriptorType_ConstantBuffer), (''albedo'', 1, RootDescriptorType_ShaderResource)],
      descriptor_table_descriptor_mappings = [(''textures'', 4096)],
      descriptor_table_handles = [(2, 8192)],
      bound_buffers = [(''camera'', BoundBuffer example_buffer)], bound_images = []\<rparr>"
  by (simp add: example_bound_builder_def example_builder_def new_D3D12BindGroupBuilder_def set_buffer_def)

theorem build_with_one_unbound_slot_witness:
  "valid_declarations example_bound_builder
   \<and> (''albedo'', 1, RootDescriptorType_ShaderResource) \<in> set (root_descriptor_descriptions example_bound_builder)
   \<and> unbound example_bound_builder ''albedo''
   \<and> (\<exists>group. build example_address example_bound_builder =
         Inr (group, [(level_warn, ''No resources bound to root descriptor albedo'')]))"
proof -
  have v: "valid_declarations example_bound_builder"
    by (simp add: example_bound_builder_eq valid_declarations_def)
  have d: "(''albedo'', 1, RootDescriptorType_ShaderResource) \<in> set (root_descriptor_descriptions example_bound_builder)"
    by (simp add: example_bound_builder_eq)
  have u: "unbound example_bound_builder ''albedo''"
    by (simp add: example_bound_builder_eq unbound_def)
  have o: "\<forall>e\<in>set (root_descriptor_descriptions example_bound_builder).
             fst e \<noteq> ''albedo'' \<longrightarrow> usably_bound example_bound_builder (fst e)"
    by (simp add: example_bound_builder_eq usably_bound_def example_buffer_def)
  from build_with_one_unbound_slot [OF v d u o, of example_address] v d u show ?thesis
    by auto
qed

lemma set_image_array_bound_images: "bound_images (set_image_array name images b) = bound_images b"
  by (simp add: set_image_array_def)

text \<open>
  C6 asks that \<open>build\<close> takes the root descriptor's payload from an image bound with
  \<open>set_image\<close>. \<open>set_image_array\<close> stores the images in \<open>bound_buffers\<close>;
  \<open>bound_images\<close>, which is where \<open>build\<close> looks for images, stays empty. For a
  builder that declares the root descriptor \<open>albedo\<close> and binds an image to it,
  \<open>build\<close> finds the name among the buffers and has no buffer to read the address from.
\<close>

theorem set_image_binding_not_consumed:
  "bound_images (set_image ''albedo'' example_image example_bound_builder) = []
   \<and> map_of (bound_buffers (set_image ''albedo'' example_image example_bound_builder)) ''albedo''
       = Some (BoundImages [example_image])
   \<and> build example_address (set_image ''albedo'' example_image example_bound_builder) = Inl NotABuffer"
  by (simp add: example_bound_builder_eq set_image_def set_image_array_def build_def ENSURE_def root_descriptor_payload_def example_buffer_def empty_RootParameter_def)

section \<open>Properties of the frame cycle\<close>








lemma reclaim_frame_fields [simp]:
  "frame_fence_values (snd (reclaim_done_command_lists dev)) = frame_fence_values dev"
  "frame_fences (snd (reclaim_done_command_lists dev)) = frame_fences dev"
  by (simp_all add: reclaim_done_command_lists_def)













section \<open>Properties of runs\<close>












































lemmas run_eval =
  initial_world_def step_def create_render_command_list_def submit_command_list_def
  get_next_command_list_done_fence_def prepare_for_submission_def reclaim_done_command_lists_def
  execute_completion_functions_def begin_frame_after_wait_def fence_value_def
  not_FAILED_S_OK CPU_FENCE_SIGNALED_def Let_def




text \<open>
  The worker does not read the result of its wait. In \<open>timed_out_run\<close> the wait on fence 5
  times out, the fence still at 0, and the completion function of the list is executed all
  the same. In \<open>stale_request_run\<close> the request that the timed-out wait left with fence 5
  sets the event during the wait for the second list: that wait returns with the event
  set while its fence 7 is still at 0.
\<close>

lemma timed_out_run_result:
  "map_sum id invoked (run timed_out_run (initial_world 2)) = Inr [(4, [7])]"
  "map_sum id waits (run timed_out_run (initial_world 2)) = Inr [(4, 5, WAIT_TIMEOUT)]"
  "map_sum id (\<lambda>w. fence_value w 5) (run timed_out_run (initial_world 2)) = Inr 0"
  by (simp_all add: timed_out_run_def run_eval)

lemma stale_request_run_result:
  "map_sum id invoked (run stale_request_run (initial_world 2)) = Inr [(4, [7]), (6, [8])]"
  "map_sum id waits (run stale_request_run (initial_world 2)) =
     Inr [(4, 5, WAIT_TIMEOUT), (6, 7, WAIT_OBJECT_0)]"
  "map_sum id (\<lambda>w. fence_value w 7) (run stale_request_run (initial_world 2)) = Inr 0"
  by (simp_all add: stale_request_run_def run_eval)

end
